theory Spec2Isabelle
  imports Complex_Main
begin

section \<open>The task controller of GeofenceServer (app/controllers/task.js)\<close>

text \<open>
  The controller is a set of Express route handlers over Sequelize models. Every handler
  is embedded as a function from the stored tables (and the request) to the first reply
  the client gets and the tables afterwards. The tables are lists of rows in insertion
  order; a Sequelize call becomes the list operation its SQL statement performs
  (\<open>findAll\<close> is a filter, \<open>UPDATE ... WHERE id\<close> a map, \<open>destroy\<close> a filter,
  \<open>create\<close> an append with the next auto-increment id).

  What the file takes from outside is a parameter of the embedding:
  \<^item> \<open>F\<close>, the set of store operations the persistence engine rejects during the request
    (a rejected promise), so that every \<open>catch\<close> of the source is a branch; queries
    that only read are taken to succeed;
  \<^item> \<open>now\<close>, the server clock when a row is created (\<open>createdAt\<close>);
  \<^item> \<open>acc\<close>, the instance method \<open>task.acceptingNewResponses\<close> of the Task model
    (declared in app/models, called at line 223), as a function from the task read and
    its responses to the error it passes to its callback, if any;
  \<^item> \<open>JSON_parse\<close>, the builtin, \<open>None\<close> where it throws.
  Balances and costs are numeric columns, read as JavaScript numbers: rationals, with the
  arithmetic on them rounded as doubles are; ids are naturals; times are integers
  (milliseconds). The push notification (\<open>gcm.sendMessage\<close>) is
  taken to call back; \<open>task-add\<close> and \<open>task-respond\<close> send their JSON reply from its
  callback.
\<close>

subsection \<open>Values, errors and replies\<close>

type_synonym user_id = nat
type_synonym task_id = nat
type_synonym taskaction_id = nat
type_synonym unixtime = int

text \<open>
  The result of \<open>parseFloat\<close> on a field of the request body: \<open>NaN\<close> or a number.
  (The infinities pass every check below like any non-zero number and are left out.)
  \<open>truthy\<close> is JavaScript's \<open>ToBoolean\<close> on it: \<open>NaN\<close> and zero are falsy.
\<close>

datatype js_number = NaN | Num rat

definition truthy :: "js_number \<Rightarrow> bool" where
  "truthy n = (case n of NaN \<Rightarrow> False | Num q \<Rightarrow> q \<noteq> 0)"

definition num_value :: "js_number \<Rightarrow> rat" where
  "num_value n = (case n of NaN \<Rightarrow> 0 | Num q \<Rightarrow> q)"

text \<open>
  JavaScript numbers are IEEE 754 doubles, and \<open>+\<close> and \<open>-\<close> return the double
  nearest to the exact result, ties to the even significand. A finite double is a
  rational, so the arithmetic of lines 226-227 is the exact operation on rationals
  followed by \<open>double_round\<close>: with \<open>2 ^ e \<le> \<bar>x\<bar> < 2 ^ (e + 1)\<close>, the result is
  the multiple of \<open>2 ^ (e - 52)\<close> nearest to \<open>x\<close>. (Results beyond the largest
  double or inside the subnormal range are not modelled.)
\<close>

function bit_length :: "int \<Rightarrow> int" where
  "bit_length i = (if i \<le> 0 then 0 else 1 + bit_length (i div 2))"
  by pat_completeness auto
termination
  by (relation "measure nat") auto

definition binary_exponent :: "rat \<Rightarrow> int" where
  "binary_exponent x =
     (let (a, b) = quotient_of x; g = bit_length a - bit_length b
      in if power_int 2 g \<le> x then g else g - 1)"

definition round_half_even :: "rat \<Rightarrow> int" where
  "round_half_even x =
     (let f = \<lfloor>x\<rfloor>; r = x - of_int f
      in if r < 1 / 2 then f else if 1 / 2 < r then f + 1 else if even f then f else f + 1)"

definition double_round :: "rat \<Rightarrow> rat" where
  "double_round x =
     (if x = 0 then 0
      else let u = power_int 2 (binary_exponent \<bar>x\<bar> - 52)
           in of_int (round_half_even (x / u)) * u)"

definition js_add :: "rat \<Rightarrow> rat \<Rightarrow> rat" where
  "js_add x y = double_round (x + y)"

definition js_sub :: "rat \<Rightarrow> rat \<Rightarrow> rat" where
  "js_sub x y = double_round (x - y)"

datatype store_op =
    TaskCreate | TaskDestroy | TaskUpdate | OwnerUpdate | UserUpdate
  | TaskResponseCreate | TaskActionResponseBulkCreate | ChangeLogCreate

datatype error =
    CostNotNumber            \<comment> \<open>"Cost must be a number (in dollars)."\<close>
  | LatLngNotNumbers         \<comment> \<open>"Lat and Lng must both be numbers."\<close>
  | TaskCompleted            \<comment> \<open>"Task is already completed."\<close>
  | NotAccepting             \<comment> \<open>the error of \<open>acceptingNewResponses\<close>\<close>
  | StorageError store_op    \<comment> \<open>a Sequelize promise was rejected\<close>
  | TypeError                \<comment> \<open>a property of \<open>null\<close> or \<open>undefined\<close> was read\<close>

datatype change_status = CREATED | UPDATED | DELETED

subsection \<open>Rows and tables\<close>

record user =
  uid :: user_id
  balance :: rat
  gcmToken :: string

record location =
  locationName :: string
  lat :: js_number
  lng :: js_number
  radius :: js_number

record taskaction =
  description :: string
  actionType :: string

record task =
  tid :: task_id
  userId :: user_id
  taskName :: string
  cost :: rat
  refreshRate :: int
  expiresAt :: int
  answersLeft :: int
  location :: location
  taskactions :: "taskaction list"

record taskresponse =
  tr_id :: nat
  tr_userId :: user_id
  tr_taskId :: task_id
  tr_createdAt :: unixtime

record taskactionresponse =
  tar_userId :: user_id
  tar_response :: "string option"
  tar_taskactionId :: taskaction_id
  tar_taskresponseId :: nat

record changelog =
  cl_taskId :: task_id
  cl_status :: change_status
  cl_createdAt :: unixtime

record db =
  users :: "user list"
  tasks :: "task list"
  taskresponses :: "taskresponse list"
  taskactionresponses :: "taskactionresponse list"
  changelogs :: "changelog list"
  task_seq :: nat
  taskresponse_seq :: nat

text \<open>What a handler sends first: a JSON body, a redirect, \<open>next(error)\<close> (the router's
  error middleware answers with the message), or nothing at all when an exception
  escapes a promise callback that no \<open>catch\<close> follows.\<close>

record changeLog =
  lastUpdated :: unixtime
  changes :: "(task_id \<times> change_status) list"

datatype reply =
    CreatedTask task_id "taskaction list"
  | Redirect
  | Fetched "(task \<times> taskresponse list) list"
  | Synced changeLog
  | Balance rat
  | Next error
  | Unhandled error

subsection \<open>createChangeLogPromise (lines 18-25)\<close>

definition createChangeLogPromise ::
  "store_op set \<Rightarrow> unixtime \<Rightarrow> task_id \<Rightarrow> change_status \<Rightarrow> db \<Rightarrow> error + db" where
  "createChangeLogPromise F now taskId status d =
     (if ChangeLogCreate \<in> F then Inl (StorageError ChangeLogCreate)
      else Inr (d\<lparr>changelogs := changelogs d @
                  [\<lparr>cl_taskId = taskId, cl_status = status, cl_createdAt = now\<rparr>]\<rparr>))"

subsection \<open>POST /db/task-add (lines 47-88)\<close>

record task_add_body =
  b_userId :: user_id
  b_taskName :: string
  b_cost :: js_number
  b_expiresAt :: int
  b_refreshRate :: int
  b_answersLeft :: int
  b_locationName :: string
  b_lat :: js_number
  b_lng :: js_number
  b_radius :: js_number
  b_taskActions :: "taskaction list"

text \<open>The fields \<open>b_cost\<close>, \<open>b_lat\<close> and \<open>b_lng\<close> hold what \<open>parseFloat\<close> returns
  on the body's \<open>cost\<close>, \<open>lat\<close> and \<open>lng\<close>. The handler hands the raw fields to the
  store; the row is taken to hold the numbers they parse to.\<close>

definition new_task :: "db \<Rightarrow> task_add_body \<Rightarrow> task" where
  "new_task d body =
     \<lparr>tid = task_seq d, userId = b_userId body, taskName = b_taskName body,
      cost = num_value (b_cost body), refreshRate = b_refreshRate body,
      expiresAt = b_expiresAt body, answersLeft = b_answersLeft body,
      location = \<lparr>locationName = b_locationName body, lat = b_lat body,
                  lng = b_lng body, radius = b_radius body\<rparr>,
      taskactions = b_taskActions body\<rparr>"

definition task_add :: "store_op set \<Rightarrow> unixtime \<Rightarrow> db \<Rightarrow> task_add_body \<Rightarrow> reply \<times> db" where
  "task_add F now d body =
     (if \<not> truthy (b_cost body) then (Next CostNotNumber, d)
      else if \<not> truthy (b_lat body) \<or> \<not> truthy (b_lng body) then (Next LatLngNotNumbers, d)
      else if TaskCreate \<in> F then (Next (StorageError TaskCreate), d)
      else
        let createdTask = new_task d body;
            d1 = d\<lparr>tasks := tasks d @ [createdTask], task_seq := Suc (task_seq d)\<rparr>
        in (case createChangeLogPromise F now (tid createdTask) CREATED d1 of
              Inl e \<Rightarrow> (Next e, d1)
            | Inr d2 \<Rightarrow> (CreatedTask (tid createdTask) (taskactions createdTask), d2)))"

subsection \<open>GET /db/task-delete/:taskId (lines 102-116)\<close>

text \<open>
  \<open>destroy\<close> is issued first. The argument of the first \<open>then\<close> is not a callback
  but the call \<open>createChangeLogPromise(taskId, DELETED)\<close> itself, so the entry is
  created at once, whatever \<open>destroy\<close> does; a promise passed to \<open>then\<close> is ignored,
  so its rejection reaches no \<open>catch\<close>. The redirect waits for \<open>destroy\<close> only.
  \<open>destroy\<close> deletes from the task table the rows with the id (\<open>include\<close> is not
  an option of \<open>destroy\<close>; the location is a field of the task row here). Rows of other
  tables are not touched by the statement.
\<close>

definition destroy_task :: "task_id \<Rightarrow> db \<Rightarrow> db" where
  "destroy_task taskId d = d\<lparr>tasks := filter (\<lambda>t. tid t \<noteq> taskId) (tasks d)\<rparr>"

definition task_delete :: "store_op set \<Rightarrow> unixtime \<Rightarrow> db \<Rightarrow> task_id \<Rightarrow> reply \<times> db" where
  "task_delete F now d taskId =
     (let d1 = (if TaskDestroy \<in> F then d else destroy_task taskId d);
          d2 = (case createChangeLogPromise F now taskId DELETED d1 of
                  Inl e \<Rightarrow> d1 | Inr d' \<Rightarrow> d')
      in (if TaskDestroy \<in> F then Next (StorageError TaskDestroy) else Redirect, d2))"

subsection \<open>GET /db/task-fetch (lines 130-150)\<close>

definition requestedFetchTaskIds ::
  "(string \<Rightarrow> task_id list option) \<Rightarrow> string option \<Rightarrow> task_id list" where
  "requestedFetchTaskIds JSON_parse q =
     (case q of
        None \<Rightarrow> []
      | Some s \<Rightarrow>
          if s = [] then []
          else (case JSON_parse s of None \<Rightarrow> [] | Some ids \<Rightarrow> ids))"

definition responses_of :: "db \<Rightarrow> task_id \<Rightarrow> taskresponse list" where
  "responses_of d taskId = filter (\<lambda>r. tr_taskId r = taskId) (taskresponses d)"

definition findAll_tasks :: "db \<Rightarrow> task_id list \<Rightarrow> (task \<times> taskresponse list) list" where
  "findAll_tasks d ids =
     map (\<lambda>t. (t, responses_of d (tid t))) (filter (\<lambda>t. tid t \<in> set ids) (tasks d))"

definition task_fetch ::
  "(string \<Rightarrow> task_id list option) \<Rightarrow> db \<Rightarrow> string option \<Rightarrow> reply \<times> db" where
  "task_fetch JSON_parse d q = (Fetched (findAll_tasks d (requestedFetchTaskIds JSON_parse q)), d)"

subsection \<open>GET /db/task-sync (lines 168-191)\<close>

definition task_sync :: "db \<Rightarrow> unixtime \<Rightarrow> reply \<times> db" where
  "task_sync d since =
     (let allChanges = filter (\<lambda>c. since < cl_createdAt c) (changelogs d)
      in (Synced
            (if length allChanges > 0
             then \<lparr>lastUpdated = cl_createdAt (last allChanges),
                   changes = map (\<lambda>c. (cl_taskId c, cl_status c)) allChanges\<rparr>
             else \<lparr>lastUpdated = 0, changes = []\<rparr>),
          d))"

subsection \<open>POST /db/task-respond (lines 210-262)\<close>

text \<open>The body of the request, its two JSON fields as parsed at lines 213-214.\<close>

record respond_body =
  r_taskId :: task_id
  r_responses :: "(taskaction_id \<times> string) list"
  r_taskActionIds :: "taskaction_id list"

text \<open>What \<open>findOne\<close> resolves with (lines 217-220): the task row, its owner
  \<open>task.user\<close> and its responses, newest first; \<open>None\<close> is \<open>null\<close>.\<close>

record found_task =
  f_task :: task
  f_user :: "user option"
  f_taskresponses :: "taskresponse list"

definition find_task :: "db \<Rightarrow> task_id \<Rightarrow> task option" where
  "find_task d taskId = find (\<lambda>t. tid t = taskId) (tasks d)"

definition find_user :: "db \<Rightarrow> user_id \<Rightarrow> user option" where
  "find_user d k = find (\<lambda>u. uid u = k) (users d)"

definition newest_first :: "db \<Rightarrow> task_id \<Rightarrow> taskresponse list" where
  "newest_first d taskId = rev (sort_key tr_createdAt (responses_of d taskId))"

definition findOne_task :: "db \<Rightarrow> task_id \<Rightarrow> found_task option" where
  "findOne_task d taskId =
     (case find_task d taskId of
        None \<Rightarrow> None
      | Some t \<Rightarrow>
          Some \<lparr>f_task = t, f_user = find_user d (userId t),
                f_taskresponses = newest_first d taskId\<rparr>)"

text \<open>\<open>instance.update({balance: b})\<close> writes the value computed from the instance
  in memory into the row with the instance's id; nobody waits for it, and its rejection
  is dropped.\<close>

definition update_balance :: "store_op set \<Rightarrow> store_op \<Rightarrow> user_id \<Rightarrow> rat \<Rightarrow> db \<Rightarrow> db" where
  "update_balance F op k b d =
     (if op \<in> F then d
      else d\<lparr>users := map (\<lambda>u. if uid u = k then u\<lparr>balance := b\<rparr> else u) (users d)\<rparr>)"

definition update_answersLeft :: "store_op set \<Rightarrow> task_id \<Rightarrow> int \<Rightarrow> db \<Rightarrow> db" where
  "update_answersLeft F k n d =
     (if TaskUpdate \<in> F then d
      else d\<lparr>tasks := map (\<lambda>t. if tid t = k then t\<lparr>answersLeft := n\<rparr> else t) (tasks d)\<rparr>)"

text \<open>Lines 226-228: the three updates, in the order they are issued. The new values are
  computed in memory, from the instances the handler holds, in double arithmetic.\<close>

definition apply_updates :: "store_op set \<Rightarrow> user \<Rightarrow> user \<Rightarrow> task \<Rightarrow> db \<Rightarrow> db" where
  "apply_updates F owner usr t d =
     update_answersLeft F (tid t) (answersLeft t - 1)
       (update_balance F UserUpdate (uid usr) (js_add (balance usr) (cost t))
         (update_balance F OwnerUpdate (uid owner) (js_sub (balance owner) (cost t)) d))"

text \<open>
  Lines 230-259. When \<open>TaskResponse.create\<close> is rejected, its \<open>catch\<close> calls
  \<open>next(error)\<close> and the following \<open>then\<close> still runs, with \<open>createdTaskResponse\<close>
  undefined: the first task action id read throws a TypeError inside \<open>map\<close>; with no
  id, \<open>bulkCreate([])\<close> resolves without a query and the change log entry is written.
  The promise of the change log entry has no \<open>catch\<close>.
\<close>

definition persist_response ::
  "store_op set \<Rightarrow> unixtime \<Rightarrow> user \<Rightarrow> respond_body \<Rightarrow> db \<Rightarrow> reply \<times> db" where
  "persist_response F now usr body d =
     (if TaskResponseCreate \<in> F then
        (Next (StorageError TaskResponseCreate),
         if r_taskActionIds body = [] then
           (case createChangeLogPromise F now (r_taskId body) UPDATED d of
              Inl e \<Rightarrow> d | Inr d' \<Rightarrow> d')
         else d)
      else
        let createdTaskResponse =
              \<lparr>tr_id = taskresponse_seq d, tr_userId = uid usr,
               tr_taskId = r_taskId body, tr_createdAt = now\<rparr>;
            d1 = d\<lparr>taskresponses := taskresponses d @ [createdTaskResponse],
                   taskresponse_seq := Suc (taskresponse_seq d)\<rparr>
        in if r_taskActionIds body \<noteq> [] \<and> TaskActionResponseBulkCreate \<in> F
           then (Next (StorageError TaskActionResponseBulkCreate), d1)
           else
             let d2 = d1\<lparr>taskactionresponses := taskactionresponses d1 @
                        map (\<lambda>i. \<lparr>tar_userId = uid usr,
                                  tar_response = map_of (r_responses body) i,
                                  tar_taskactionId = i,
                                  tar_taskresponseId = tr_id createdTaskResponse\<rparr>)
                            (r_taskActionIds body)\<rparr>
             in (case createChangeLogPromise F now (r_taskId body) UPDATED d2 of
                   Inl e \<Rightarrow> (Unhandled e, d2)
                 | Inr d3 \<Rightarrow> (Balance (balance usr), d3)))"

text \<open>The callback of \<open>findOne\<close> (lines 220-261), run on what \<open>findOne\<close> resolved with
  and on the tables as they are when the callback runs. \<open>usr\<close> is \<open>req.user\<close>, the
  instance the middleware \<open>ensureUserExists\<close> left on the request.\<close>

definition respond_then ::
  "(task \<Rightarrow> taskresponse list \<Rightarrow> error option) \<Rightarrow> store_op set \<Rightarrow> unixtime \<Rightarrow>
   user \<Rightarrow> respond_body \<Rightarrow> found_task option \<Rightarrow> db \<Rightarrow> reply \<times> db" where
  "respond_then acc F now usr body found d =
     (case found of
        None \<Rightarrow> (Unhandled TypeError, d)
      | Some f \<Rightarrow>
          if answersLeft (f_task f) = 0 then (Next TaskCompleted, d)
          else (case acc (f_task f) (f_taskresponses f) of
                  Some e \<Rightarrow> (Next e, d)
                | None \<Rightarrow>
                    (case f_user f of
                       None \<Rightarrow> (Unhandled TypeError, d)
                     | Some owner \<Rightarrow>
                         persist_response F now
                           (usr\<lparr>balance := js_add (balance usr) (cost (f_task f))\<rparr>) body
                           (apply_updates F owner usr (f_task f) d))))"

definition task_respond ::
  "(task \<Rightarrow> taskresponse list \<Rightarrow> error option) \<Rightarrow> store_op set \<Rightarrow> unixtime \<Rightarrow>
   db \<Rightarrow> user \<Rightarrow> respond_body \<Rightarrow> reply \<times> db" where
  "task_respond acc F now d usr body =
     respond_then acc F now usr body (findOne_task d (r_taskId body)) d"

text \<open>Two requests that overlap: the store answers the \<open>findOne\<close> of both before the
  writes of either callback reach it. Each callback then works on the task as it was
  read; the second one runs on the tables the first left.\<close>

definition task_respond_overlapped ::
  "(task \<Rightarrow> taskresponse list \<Rightarrow> error option) \<Rightarrow> unixtime \<Rightarrow> db \<Rightarrow>
   user \<Rightarrow> respond_body \<Rightarrow> user \<Rightarrow> respond_body \<Rightarrow> reply \<times> reply \<times> db" where
  "task_respond_overlapped acc now d usrA bodyA usrB bodyB =
     (let foundA = findOne_task d (r_taskId bodyA);
          foundB = findOne_task d (r_taskId bodyB);
          (replyA, d1) = respond_then acc {} now usrA bodyA foundA d;
          (replyB, d2) = respond_then acc {} now usrB bodyB foundB d1
      in (replyA, replyB, d2))"

subsection \<open>Sequences of requests\<close>

datatype request =
    Create "store_op set" unixtime task_add_body
  | Respond "store_op set" unixtime user respond_body
  | Delete "store_op set" unixtime task_id
  | Fetch "string option"
  | Sync unixtime

fun handle ::
  "(task \<Rightarrow> taskresponse list \<Rightarrow> error option) \<Rightarrow> (string \<Rightarrow> task_id list option) \<Rightarrow>
   request \<Rightarrow> db \<Rightarrow> reply \<times> db" where
  "handle acc JSON_parse (Create F now body) d = task_add F now d body"
| "handle acc JSON_parse (Respond F now usr body) d = task_respond acc F now d usr body"
| "handle acc JSON_parse (Delete F now taskId) d = task_delete F now d taskId"
| "handle acc JSON_parse (Fetch q) d = task_fetch JSON_parse d q"
| "handle acc JSON_parse (Sync since) d = task_sync d since"

fun run ::
  "(task \<Rightarrow> taskresponse list \<Rightarrow> error option) \<Rightarrow> (string \<Rightarrow> task_id list option) \<Rightarrow>
   request list \<Rightarrow> db \<Rightarrow> db" where
  "run acc JSON_parse [] d = d"
| "run acc JSON_parse (r # rs) d = run acc JSON_parse rs (snd (handle acc JSON_parse r d))"

subsection \<open>Invariants of the task table\<close>

text \<open>Every stored counter is non-negative; every stored task id is below the next
  auto-increment id; a creation request asks for a non-negative number of answers.\<close>

definition answers_nonneg :: "db \<Rightarrow> bool" where
  "answers_nonneg d = list_all (\<lambda>t. 0 \<le> answersLeft t) (tasks d)"

definition ids_fresh :: "db \<Rightarrow> bool" where
  "ids_fresh d = list_all (\<lambda>t. tid t < task_seq d) (tasks d)"

fun creates_nonneg :: "request \<Rightarrow> bool" where
  "creates_nonneg (Create F now body) = (0 \<le> b_answersLeft body)"
| "creates_nonneg r = True"

subsection \<open>A small store for the examples\<close>

definition ex_owner :: user where
  "ex_owner = \<lparr>uid = 1, balance = 100, gcmToken = ''tok1''\<rparr>"

definition ex_alice :: user where
  "ex_alice = \<lparr>uid = 2, balance = 0, gcmToken = ''tok2''\<rparr>"

definition ex_bob :: user where
  "ex_bob = \<lparr>uid = 3, balance = 0, gcmToken = ''tok3''\<rparr>"

definition ex_task :: task where
  "ex_task = \<lparr>tid = 7, userId = 1, taskName = ''count the bikes'', cost = 5,
     refreshRate = 60, expiresAt = 1000, answersLeft = 1,
     location = \<lparr>locationName = ''campus'', lat = Num 40, lng = Num (-80), radius = Num 60\<rparr>,
     taskactions = [\<lparr>description = ''how many?'', actionType = ''text''\<rparr>]\<rparr>"

definition ex_db :: db where
  "ex_db = \<lparr>users = [ex_owner, ex_alice, ex_bob], tasks = [ex_task], taskresponses = [],
     taskactionresponses = [],
     changelogs = [\<lparr>cl_taskId = 7, cl_status = CREATED, cl_createdAt = 5\<rparr>],
     task_seq = 8, taskresponse_seq = 0\<rparr>"

definition ex_body :: task_add_body where
  "ex_body = \<lparr>b_userId = 1, b_taskName = ''read the sign'', b_cost = Num 5,
     b_expiresAt = 2000, b_refreshRate = 60, b_answersLeft = 2, b_locationName = ''gate'',
     b_lat = Num 40, b_lng = Num (-80), b_radius = Num 60,
     b_taskActions = [\<lparr>description = ''what does it say?'', actionType = ''text''\<rparr>]\<rparr>"

definition ex_respond :: respond_body where
  "ex_respond = \<lparr>r_taskId = 7, r_responses = [(1, ''three'')], r_taskActionIds = [1]\<rparr>"

definition ex_parse :: "string \<Rightarrow> task_id list option" where
  "ex_parse s = (if s = ''[7]'' then Some [7] else None)"

lemmas ex_defs = ex_db_def ex_task_def ex_owner_def ex_alice_def ex_bob_def

section \<open>Properties\<close>

subsection \<open>Double arithmetic at the amounts of the examples\<close>

lemma js_sub_100_5: "js_sub 100 5 = 95"
  by code_simp

lemma js_add_0_5: "js_add 0 5 = 5"
  by code_simp

lemma js_add_100_5: "js_add 100 5 = 105"
  by code_simp

lemma js_add_rounds: "js_add 9007199254740992 5 = 9007199254740996"
  by code_simp

lemmas js_examples = js_sub_100_5 js_add_0_5 js_add_100_5 js_add_rounds

subsection \<open>Lists sorted by a key\<close>

lemma sorted_map_filter:
  "sorted (map f xs) \<Longrightarrow> sorted (map f (filter P xs))"
  by (induction xs) auto

lemma sorted_map_last_Max:
  "sorted (map f xs) \<Longrightarrow> xs \<noteq> [] \<Longrightarrow> f (last xs) = Max (f ` set xs)"
proof (induction xs)
  case Nil
  then show ?case by simp
next
  case (Cons x xs)
  show ?case
  proof (cases "xs = []")
    case True
    then show ?thesis by simp
  next
    case False
    with Cons have ih: "f (last xs) = Max (f ` set xs)" by simp
    from Cons.prems have "\<forall>y\<in>set xs. f x \<le> f y" by simp
    with False have "f x \<le> f (last xs)" by simp
    with False ih show ?thesis by (simp add: max_def)
  qed
qed

lemma last_filter_keep:
  "xs \<noteq> [] \<Longrightarrow> P (last xs) \<Longrightarrow> last (filter P xs) = last xs"
  by (induction xs rule: rev_induct) auto

lemma newer_last:
  fixes f :: "'a \<Rightarrow> int"
  assumes "sorted (map f xs)" "filter (\<lambda>c. s < f c) xs \<noteq> []"
  shows "last (filter (\<lambda>c. s < f c) xs) = last xs" "xs \<noteq> []"
proof -
  from assms(2) show ne: "xs \<noteq> []" by auto
  from assms(2) obtain c where c: "c \<in> set xs" "s < f c"
    by (metis (mono_tags, lifting) filter_False)
  from assms(1) ne c(1) have "f c \<le> f (last xs)"
    by (simp add: sorted_map_last_Max)
  with c(2) have "s < f (last xs)" by simp
  then show "last (filter (\<lambda>c. s < f c) xs) = last xs"
    using ne by (simp add: last_filter_keep)
qed

subsection \<open>Creating a task\<close>

text \<open>
  C6, as the code has it. \<open>task_add\<close> answers with one of its two validation errors,
  the store untouched, whenever \<open>cost\<close>, \<open>lat\<close> or \<open>lng\<close> does not parse as a
  number; an unparsable \<open>cost\<close> gives the cost error. Whenever the three parse to
  non-zero numbers, of either sign, no validation error is raised and (unless the store
  rejects the insertion) the task is appended to the task table.
\<close>

theorem task_add_validation:
  "(b_cost body = NaN \<longrightarrow> task_add F now d body = (Next CostNotNumber, d))
   \<and> (b_lat body = NaN \<or> b_lng body = NaN \<longrightarrow>
        task_add F now d body = (Next CostNotNumber, d) \<or>
        task_add F now d body = (Next LatLngNotNumbers, d))
   \<and> ((\<exists>c la ln. b_cost body = Num c \<and> c \<noteq> 0 \<and> b_lat body = Num la \<and> la \<noteq> 0
          \<and> b_lng body = Num ln \<and> ln \<noteq> 0) \<and> TaskCreate \<notin> F \<longrightarrow>
        tasks (snd (task_add F now d body)) = tasks d @ [new_task d body]
        \<and> fst (task_add F now d body) \<noteq> Next CostNotNumber
        \<and> fst (task_add F now d body) \<noteq> Next LatLngNotNumbers)"
  by (auto simp: task_add_def truthy_def createChangeLogPromise_def Let_def)

theorem task_add_validation_witness:
  "task_add {} 9 ex_db (ex_body\<lparr>b_lng := NaN\<rparr>) = (Next LatLngNotNumbers, ex_db)
   \<and> tasks (snd (task_add {} 9 ex_db ex_body)) = tasks ex_db @ [new_task ex_db ex_body]"
  using task_add_validation [where body = "ex_body\<lparr>b_lng := NaN\<rparr>" and F = "{}" and now = 9 and d = ex_db]
        task_add_validation [where body = ex_body and F = "{}" and now = 9 and d = ex_db]
  by (simp add: ex_body_def task_add_def truthy_def)

text \<open>The claim as written fails in both directions: a negative cost is accepted and the
  task is created; a latitude of zero, which is a number, is refused.\<close>

theorem task_add_validation_counterexample:
  "fst (task_add {} 9 ex_db (ex_body\<lparr>b_cost := Num (-5)\<rparr>))
     = CreatedTask 8 (b_taskActions ex_body)
   \<and> task_add {} 9 ex_db (ex_body\<lparr>b_lat := Num 0\<rparr>) = (Next LatLngNotNumbers, ex_db)"
  by (simp add: ex_body_def task_add_def truthy_def createChangeLogPromise_def new_task_def
        ex_db_def Let_def)

subsection \<open>Deleting a task\<close>

lemma find_None_filter:
  "find P xs = None \<Longrightarrow> filter (\<lambda>x. \<not> P x) xs = xs"
  by (induction xs) (auto split: if_splits)

text \<open>
  C9 at a failing input. The store rejects the \<open>destroy\<close> of task \<open>7\<close>: the client gets
  the error, the task is still there, and the change log already says \<open>DELETED\<close>,
  because the entry is created when the promise chain is built and not after
  \<open>destroy\<close> has resolved.
\<close>

theorem task_delete_logs_without_destroy:
  "task_delete {TaskDestroy} 9 ex_db 7 =
     (Next (StorageError TaskDestroy),
      ex_db\<lparr>changelogs := changelogs ex_db @
        [\<lparr>cl_taskId = 7, cl_status = DELETED, cl_createdAt = 9\<rparr>]\<rparr>)
   \<and> find_task (snd (task_delete {TaskDestroy} 9 ex_db 7)) 7 = Some ex_task"
  by (simp add: ex_defs find_task_def task_delete_def createChangeLogPromise_def)

subsection \<open>Fetching tasks\<close>

text \<open>
  C10. When the \<open>taskId\<close> parameter of the query is absent, or \<open>JSON.parse\<close> throws on
  it, \<open>task_fetch\<close> replies with the empty list of tasks, not with an error, and the
  store is unchanged.
\<close>

theorem task_fetch_no_ids:
  "q = None \<or> (\<exists>s. q = Some s \<and> JSON_parse s = None) \<Longrightarrow>
   task_fetch JSON_parse d q = (Fetched [], d)"
  by (auto simp: task_fetch_def requestedFetchTaskIds_def findAll_tasks_def)

theorem task_fetch_no_ids_witness:
  "ex_parse ''[7'' = None
   \<and> task_fetch ex_parse ex_db (Some ''[7'') = (Fetched [], ex_db)
   \<and> task_fetch ex_parse ex_db None = (Fetched [], ex_db)
   \<and> task_fetch ex_parse ex_db (Some ''[7]'') = (Fetched [(ex_task, [])], ex_db)"
  using task_fetch_no_ids [where q = "Some ''[7''" and JSON_parse = ex_parse and d = ex_db]
        task_fetch_no_ids [where q = None and JSON_parse = ex_parse and d = ex_db]
  by (simp add: task_fetch_def requestedFetchTaskIds_def findAll_tasks_def responses_of_def
        ex_parse_def ex_defs)

subsection \<open>Responding to a task: lookups after the updates\<close>

lemma find_map_same:
  "(\<And>x. P (f x) = P x) \<Longrightarrow> find P (map f xs) = map_option f (find P xs)"
  by (induction xs) auto

lemma find_SomeD: "find P xs = Some x \<Longrightarrow> P x \<and> x \<in> set xs"
  by (induction xs) (auto split: if_splits)

lemma find_user_update_balance:
  "op \<notin> F \<Longrightarrow> find_user (update_balance F op k b d) j =
     (if j = k then map_option (\<lambda>u. u\<lparr>balance := b\<rparr>) (find_user d j) else find_user d j)"
proof -
  assume nf: "op \<notin> F"
  let ?f = "\<lambda>u. if uid u = k then u\<lparr>balance := b\<rparr> else u"
  have "find (\<lambda>u. uid u = j) (map ?f (users d)) = map_option ?f (find (\<lambda>u. uid u = j) (users d))"
    by (rule find_map_same) simp
  then show ?thesis using nf
    by (cases "find (\<lambda>u. uid u = j) (users d)")
       (auto simp: find_user_def update_balance_def dest: find_SomeD)
qed

lemma find_task_update_answersLeft:
  "TaskUpdate \<notin> F \<Longrightarrow> find_task (update_answersLeft F k n d) j =
     (if j = k then map_option (\<lambda>t. t\<lparr>answersLeft := n\<rparr>) (find_task d j) else find_task d j)"
proof -
  assume nf: "TaskUpdate \<notin> F"
  let ?f = "\<lambda>t. if tid t = k then t\<lparr>answersLeft := n\<rparr> else t"
  have "find (\<lambda>t. tid t = j) (map ?f (tasks d)) = map_option ?f (find (\<lambda>t. tid t = j) (tasks d))"
    by (rule find_map_same) simp
  then show ?thesis using nf
    by (cases "find (\<lambda>t. tid t = j) (tasks d)")
       (auto simp: find_task_def update_answersLeft_def dest: find_SomeD)
qed

lemma persist_response_frame:
  "users (snd (persist_response F now usr body d)) = users d"
  "tasks (snd (persist_response F now usr body d)) = tasks d"
  "task_seq (snd (persist_response F now usr body d)) = task_seq d"
  by (simp_all add: persist_response_def createChangeLogPromise_def Let_def)

lemma persist_response_rejected:
  "TaskResponseCreate \<in> F \<Longrightarrow>
   fst (persist_response F now usr body d) = Next (StorageError TaskResponseCreate)
   \<and> taskresponses (snd (persist_response F now usr body d)) = taskresponses d
   \<and> taskactionresponses (snd (persist_response F now usr body d)) = taskactionresponses d"
  by (simp add: persist_response_def createChangeLogPromise_def)

lemma persist_response_ok:
  "TaskResponseCreate \<notin> F \<Longrightarrow> TaskActionResponseBulkCreate \<notin> F \<Longrightarrow> ChangeLogCreate \<notin> F \<Longrightarrow>
   fst (persist_response F now usr body d) = Balance (balance usr)"
  by (simp add: persist_response_def createChangeLogPromise_def Let_def)

lemma persist_response_appends:
  "TaskResponseCreate \<notin> F \<Longrightarrow> TaskActionResponseBulkCreate \<notin> F \<Longrightarrow> ChangeLogCreate \<notin> F \<Longrightarrow>
   taskresponses (snd (persist_response F now usr body d)) =
     taskresponses d @ [\<lparr>tr_id = taskresponse_seq d, tr_userId = uid usr,
                         tr_taskId = r_taskId body, tr_createdAt = now\<rparr>]"
  by (simp add: persist_response_def createChangeLogPromise_def Let_def)

lemma apply_updates_frame:
  "taskresponses (apply_updates F owner usr t d) = taskresponses d"
  "taskresponse_seq (apply_updates F owner usr t d) = taskresponse_seq d"
  "task_seq (apply_updates F owner usr t d) = task_seq d"
  by (simp_all add: apply_updates_def update_balance_def update_answersLeft_def)

lemma task_respond_passed:
  assumes "find_task d (r_taskId body) = Some t" "answersLeft t \<noteq> 0"
    "acc t (newest_first d (r_taskId body)) = None" "find_user d (userId t) = Some owner"
  shows "task_respond acc F now d usr body =
     persist_response F now (usr\<lparr>balance := js_add (balance usr) (cost t)\<rparr>) body
       (apply_updates F owner usr t d)"
  using assms by (simp add: task_respond_def findOne_task_def respond_then_def)

lemma task_respond_refused:
  assumes "find_task d (r_taskId body) = None
     \<or> (find_task d (r_taskId body) = Some t
        \<and> (answersLeft t = 0 \<or> acc t (newest_first d (r_taskId body)) \<noteq> None
            \<or> find_user d (userId t) = None))"
  shows "snd (task_respond acc F now d usr body) = d"
  using assms
  by (auto simp: task_respond_def findOne_task_def respond_then_def split: option.splits)

lemma task_respond_exhausted:
  "find_task d (r_taskId body) = Some t \<Longrightarrow> answersLeft t = 0 \<Longrightarrow>
   task_respond acc F now d usr body = (Next TaskCompleted, d)"
  by (simp add: task_respond_def findOne_task_def respond_then_def)

lemma task_respond_BalanceD:
  assumes "fst (task_respond acc F now d usr body) = Balance b"
  shows "\<exists>t owner. find_task d (r_taskId body) = Some t \<and> answersLeft t \<noteq> 0
      \<and> acc t (newest_first d (r_taskId body)) = None \<and> find_user d (userId t) = Some owner
      \<and> b = js_add (balance usr) (cost t)"
  using assms
  by (auto simp: task_respond_def findOne_task_def respond_then_def persist_response_def
        createChangeLogPromise_def Let_def split: option.splits if_splits)

lemma apply_updates_tables:
  "TaskUpdate \<notin> F \<Longrightarrow> find_task (apply_updates F owner usr t d) k =
     (if k = tid t then map_option (\<lambda>x. x\<lparr>answersLeft := answersLeft t - 1\<rparr>) (find_task d k)
      else find_task d k)"
proof -
  have "tasks (update_balance F op j b d') = tasks d'" for op j b d'
    by (simp add: update_balance_def)
  then have "find_task (update_balance F op j b d') = find_task d'" for op j b d'
    by (simp add: find_task_def fun_eq_iff)
  then show "TaskUpdate \<notin> F \<Longrightarrow> ?thesis"
    by (simp add: apply_updates_def find_task_update_answersLeft)
qed

subsection \<open>Responding to a task that does not exist\<close>

text \<open>
  C8 on the code. When no task has the id of the request, \<open>findOne\<close> resolves with
  \<open>null\<close>, reading \<open>task.answersLeft\<close> throws inside the callback, and no \<open>catch\<close>
  follows: the store is untouched, and the client gets no reply at all (no error is
  passed to \<open>next\<close>).
\<close>

theorem task_respond_missing_task:
  "find_task d (r_taskId body) = None \<Longrightarrow>
   task_respond acc F now d usr body = (Unhandled TypeError, d)"
  by (simp add: task_respond_def findOne_task_def respond_then_def)

theorem task_respond_missing_task_witness:
  "find_task ex_db (r_taskId (ex_respond\<lparr>r_taskId := 4\<rparr>)) = None
   \<and> task_respond (\<lambda>t rs. None) {} 9 ex_db ex_alice (ex_respond\<lparr>r_taskId := 4\<rparr>)
      = (Unhandled TypeError, ex_db)"
  using task_respond_missing_task [where d = ex_db and body = "ex_respond\<lparr>r_taskId := 4\<rparr>"
     and acc = "\<lambda>t rs. None" and F = "{}" and now = 9 and usr = ex_alice]
  by (simp add: ex_defs ex_respond_def find_task_def)

subsection \<open>The answer counter over sequences of requests\<close>

lemma task_add_tasks:
  "(tasks (snd (task_add F now d body)) = tasks d \<and> task_seq (snd (task_add F now d body)) = task_seq d)
   \<or> (tasks (snd (task_add F now d body)) = tasks d @ [new_task d body]
       \<and> task_seq (snd (task_add F now d body)) = Suc (task_seq d))"
  by (simp add: task_add_def createChangeLogPromise_def Let_def)

lemma task_delete_tasks:
  "(tasks (snd (task_delete F now d k)) = tasks d
     \<or> tasks (snd (task_delete F now d k)) = filter (\<lambda>t. tid t \<noteq> k) (tasks d))
   \<and> task_seq (snd (task_delete F now d k)) = task_seq d"
  by (simp add: task_delete_def createChangeLogPromise_def destroy_task_def Let_def)

lemma task_respond_tasks:
  "(tasks (snd (task_respond acc F now d usr body)) = tasks d
     \<or> (\<exists>t. find_task d (tid t) = Some t \<and> answersLeft t \<noteq> 0
          \<and> tasks (snd (task_respond acc F now d usr body))
              = map (\<lambda>x. if tid x = tid t then x\<lparr>answersLeft := answersLeft t - 1\<rparr> else x) (tasks d)))
   \<and> task_seq (snd (task_respond acc F now d usr body)) = task_seq d"
proof (cases "\<exists>t owner. find_task d (r_taskId body) = Some t \<and> answersLeft t \<noteq> 0
      \<and> acc t (newest_first d (r_taskId body)) = None \<and> find_user d (userId t) = Some owner")
  case True
  then obtain t owner where t: "find_task d (r_taskId body) = Some t" "answersLeft t \<noteq> 0"
      "acc t (newest_first d (r_taskId body)) = None" "find_user d (userId t) = Some owner"
    by blast
  then have tk: "tid t = r_taskId body"
    by (auto simp: find_task_def dest: find_SomeD)
  have "tasks (snd (task_respond acc F now d usr body)) = tasks (apply_updates F owner usr t d)"
    and "task_seq (snd (task_respond acc F now d usr body)) = task_seq d"
    using t by (simp_all add: task_respond_passed persist_response_frame apply_updates_frame)
  moreover have "tasks (apply_updates F owner usr t d) = tasks d
     \<or> tasks (apply_updates F owner usr t d)
          = map (\<lambda>x. if tid x = tid t then x\<lparr>answersLeft := answersLeft t - 1\<rparr> else x) (tasks d)"
    by (simp add: apply_updates_def update_answersLeft_def update_balance_def)
  ultimately have "tasks (snd (task_respond acc F now d usr body)) = tasks d
     \<or> (find_task d (tid t) = Some t \<and> answersLeft t \<noteq> 0
          \<and> tasks (snd (task_respond acc F now d usr body))
              = map (\<lambda>x. if tid x = tid t then x\<lparr>answersLeft := answersLeft t - 1\<rparr> else x) (tasks d))"
    and "task_seq (snd (task_respond acc F now d usr body)) = task_seq d"
    using t tk by simp_all
  then show ?thesis by blast
next
  case False
  then have "snd (task_respond acc F now d usr body) = d"
    by (auto simp: task_respond_def findOne_task_def respond_then_def split: option.splits)
  then show ?thesis by simp
qed

text \<open>What one request can do to the task table: nothing, append a task with the next
  id, remove the tasks with one id, or lower by one the counter of the task found.\<close>

lemma handle_tasks:
  "(tasks (snd (handle acc P r d)) = tasks d \<and> task_seq (snd (handle acc P r d)) = task_seq d)
   \<or> (\<exists>F now body. r = Create F now body
        \<and> tasks (snd (handle acc P r d)) = tasks d @ [new_task d body]
        \<and> task_seq (snd (handle acc P r d)) = Suc (task_seq d))
   \<or> (\<exists>k. tasks (snd (handle acc P r d)) = filter (\<lambda>t. tid t \<noteq> k) (tasks d)
        \<and> task_seq (snd (handle acc P r d)) = task_seq d)
   \<or> (\<exists>t. find_task d (tid t) = Some t \<and> answersLeft t \<noteq> 0
        \<and> tasks (snd (handle acc P r d))
            = map (\<lambda>x. if tid x = tid t then x\<lparr>answersLeft := answersLeft t - 1\<rparr> else x) (tasks d)
        \<and> task_seq (snd (handle acc P r d)) = task_seq d)"
proof (cases r)
  case (Create F now body)
  with task_add_tasks [of F now d body] show ?thesis by auto
next
  case (Respond F now usr body)
  with task_respond_tasks [of acc F now d usr body] show ?thesis by auto
next
  case (Delete F now k)
  with task_delete_tasks [of F now d k] show ?thesis by auto
next
  case (Fetch q)
  then show ?thesis by (simp add: task_fetch_def)
next
  case (Sync since)
  then show ?thesis by (simp add: task_sync_def Let_def)
qed

lemma find_filter_other:
  "find (\<lambda>t. tid t = k) (filter (\<lambda>t. tid t \<noteq> j) ts) =
     (if k = j then None else find (\<lambda>t. tid t = k) ts)"
  by (induction ts) auto

lemma find_append_fresh:
  "find (\<lambda>t. tid t = k) (ts @ [n]) =
     (case find (\<lambda>t. tid t = k) ts of Some t \<Rightarrow> Some t
      | None \<Rightarrow> if tid n = k then Some n else None)"
  by (induction ts) auto

lemma handle_ids_fresh:
  assumes "ids_fresh d"
  shows "ids_fresh (snd (handle acc P r d))"
proof -
  have upd: "list_all (\<lambda>t. tid t < task_seq d)
       (map (\<lambda>x. if tid x = j then x\<lparr>answersLeft := n\<rparr> else x) (tasks d))" for j n
    using assms by (auto simp: ids_fresh_def list_all_iff)
  from handle_tasks [of acc P r d] assms upd show ?thesis
    by (auto simp: ids_fresh_def list_all_iff new_task_def less_Suc_eq)
qed

lemma handle_task_seq: "task_seq d \<le> task_seq (snd (handle acc P r d))"
  using handle_tasks [of acc P r d] by auto

lemma handle_answers_nonneg:
  assumes "answers_nonneg d" "creates_nonneg r"
  shows "answers_nonneg (snd (handle acc P r d))"
proof -
  have upd: "answers_nonneg (d\<lparr>tasks := map (\<lambda>x. if tid x = tid t then x\<lparr>answersLeft := answersLeft t - 1\<rparr> else x) (tasks d)\<rparr>)"
    if "find_task d (tid t) = Some t" "answersLeft t \<noteq> 0" for t
  proof -
    from that(1) have "t \<in> set (tasks d)"
      by (auto simp: find_task_def dest: find_SomeD)
    with assms(1) have "0 \<le> answersLeft t"
      by (simp add: answers_nonneg_def list_all_iff)
    with that(2) have "0 \<le> answersLeft t - 1" by simp
    with assms(1) show ?thesis
      by (auto simp: answers_nonneg_def list_all_iff)
  qed
  from handle_tasks [of acc P r d] assms upd show ?thesis
    by (auto simp: answers_nonneg_def list_all_iff new_task_def)
qed

lemma handle_answersLeft_mono:
  assumes "find_task d k = Some t" "find_task (snd (handle acc P r d)) k = Some t'"
  shows "answersLeft t' \<le> answersLeft t"
proof -
  have upd: "answersLeft t' \<le> answersLeft t"
    if "find_task d (tid t0) = Some t0"
      "tasks (snd (handle acc P r d))
         = map (\<lambda>x. if tid x = tid t0 then x\<lparr>answersLeft := answersLeft t0 - 1\<rparr> else x) (tasks d)"
    for t0
  proof -
    let ?f = "\<lambda>x. if tid x = tid t0 then x\<lparr>answersLeft := answersLeft t0 - 1\<rparr> else x"
    have "find (\<lambda>t. tid t = k) (map ?f (tasks d)) = map_option ?f (find (\<lambda>t. tid t = k) (tasks d))"
      by (rule find_map_same) simp
    with that(2) assms have t': "t' = ?f t"
      by (simp add: find_task_def)
    show ?thesis
    proof (cases "tid t = tid t0")
      case True
      from assms(1) have "tid t = k"
        by (auto simp: find_task_def dest: find_SomeD)
      with True that(1) assms(1) have "t0 = t" by simp
      with t' show ?thesis by simp
    next
      case False
      with t' show ?thesis by simp
    qed
  qed
  from handle_tasks [of acc P r d] assms upd show ?thesis
    by (auto simp: find_task_def find_filter_other find_append_fresh split: if_splits)
qed

lemma handle_no_return:
  assumes "ids_fresh d" "k < task_seq d" "find_task d k = None"
  shows "find_task (snd (handle acc P r d)) k = None"
proof -
  have upd: "find (\<lambda>t. tid t = k) (map (\<lambda>x. if tid x = j then x\<lparr>answersLeft := n\<rparr> else x) (tasks d)) = None" for j n
    using assms(3) find_map_same [of "\<lambda>t. tid t = k" "\<lambda>x. if tid x = j then x\<lparr>answersLeft := n\<rparr> else x" "tasks d"]
    by (simp add: find_task_def)
  from handle_tasks [of acc P r d] assms upd show ?thesis
    by (auto simp: find_task_def find_filter_other find_append_fresh new_task_def)
qed

lemma run_ids_fresh: "ids_fresh d \<Longrightarrow> ids_fresh (run acc P rs d)"
  by (induction rs arbitrary: d) (auto simp: handle_ids_fresh)

lemma run_task_seq: "task_seq d \<le> task_seq (run acc P rs d)"
proof (induction rs arbitrary: d)
  case Nil
  then show ?case by simp
next
  case (Cons r rs)
  have "task_seq d \<le> task_seq (snd (handle acc P r d))" by (rule handle_task_seq)
  also have "\<dots> \<le> task_seq (run acc P rs (snd (handle acc P r d)))" by (rule Cons.IH)
  finally show ?case by simp
qed

lemma run_answers_nonneg:
  "answers_nonneg d \<Longrightarrow> list_all creates_nonneg rs \<Longrightarrow> answers_nonneg (run acc P rs d)"
  by (induction rs arbitrary: d) (auto simp: handle_answers_nonneg)

lemma run_no_return:
  "ids_fresh d \<Longrightarrow> k < task_seq d \<Longrightarrow> find_task d k = None \<Longrightarrow>
   find_task (run acc P rs d) k = None"
proof (induction rs arbitrary: d)
  case Nil
  then show ?case by simp
next
  case (Cons r rs)
  let ?d = "snd (handle acc P r d)"
  have "ids_fresh ?d" using Cons.prems(1) by (rule handle_ids_fresh)
  moreover have "k < task_seq ?d"
    using Cons.prems(2) handle_task_seq [of d acc P r] by simp
  moreover have "find_task ?d k = None"
    using Cons.prems by (rule handle_no_return)
  ultimately show ?case using Cons.IH by simp
qed

lemma run_answersLeft_mono:
  "ids_fresh d \<Longrightarrow> find_task d k = Some t \<Longrightarrow> find_task (run acc P rs d) k = Some t' \<Longrightarrow>
   answersLeft t' \<le> answersLeft t"
proof (induction rs arbitrary: d t)
  case Nil
  then show ?case by simp
next
  case (Cons r rs)
  let ?d = "snd (handle acc P r d)"
  have fr: "ids_fresh ?d" using Cons.prems(1) by (rule handle_ids_fresh)
  from Cons.prems(2) have "t \<in> set (tasks d)" "tid t = k"
    by (auto simp: find_task_def dest: find_SomeD)
  with Cons.prems(1) have k: "k < task_seq d"
    by (auto simp: ids_fresh_def list_all_iff)
  show ?case
  proof (cases "find_task ?d k")
    case None
    from k handle_task_seq [of d acc P r] have "k < task_seq ?d" by simp
    with fr have "find_task (run acc P rs ?d) k = None"
      using None by (rule run_no_return)
    with Cons.prems(3) show ?thesis by simp
  next
    case (Some t1)
    with Cons.prems(2) have "answersLeft t1 \<le> answersLeft t"
      by (rule handle_answersLeft_mono)
    moreover from fr Some Cons.prems(3) have "answersLeft t' \<le> answersLeft t1"
      using Cons.IH by simp
    ultimately show ?thesis by simp
  qed
qed


lemma findAll_tasks_found:
  "find_task d k = Some t \<Longrightarrow> (t, responses_of d k) \<in> set (findAll_tasks d [k])"
  by (auto simp: findAll_tasks_def find_task_def image_iff dest!: find_SomeD)

text \<open>
  C3, as the code has it. Start from a store whose counters are non-negative and whose
  task ids are below the next auto-increment id, and let every creation request ask for
  a non-negative \<open>answersLeft\<close>. Then after any sequence of requests (create, respond,
  delete, fetch, sync; any rejected store operations, any clock) every counter is
  non-negative; between any two points of the sequence the counter of a task that exists
  at both is not higher at the later one; and a task whose counter is \<open>0\<close> refuses every
  response with "Task is already completed.", the store unchanged, while a fetch of its
  id still returns it.
\<close>

theorem answersLeft_over_requests:
  assumes "ids_fresh d" "answers_nonneg d"
    and "list_all creates_nonneg rs1" "list_all creates_nonneg rs2"
  shows "answers_nonneg (run acc P rs1 d)
     \<and> (\<forall>k t t'. find_task (run acc P rs1 d) k = Some t
            \<and> find_task (run acc P rs2 (run acc P rs1 d)) k = Some t'
          \<longrightarrow> 0 \<le> answersLeft t' \<and> answersLeft t' \<le> answersLeft t)
     \<and> (\<forall>k t. find_task (run acc P rs1 d) k = Some t \<and> answersLeft t = 0 \<longrightarrow>
          (\<forall>F now usr body. r_taskId body = k \<longrightarrow>
             task_respond acc F now (run acc P rs1 d) usr body
               = (Next TaskCompleted, run acc P rs1 d))
          \<and> (\<forall>s. s \<noteq> [] \<and> P s = Some [k] \<longrightarrow>
               (\<exists>rows. task_fetch P (run acc P rs1 d) (Some s) = (Fetched rows, run acc P rs1 d)
                  \<and> (t, responses_of (run acc P rs1 d) k) \<in> set rows)))"
proof (intro conjI allI impI)
  let ?d1 = "run acc P rs1 d"
  have fr: "ids_fresh ?d1" using assms(1) by (rule run_ids_fresh)
  show nn: "answers_nonneg ?d1" using assms(2,3) by (rule run_answers_nonneg)
  {
    fix k t t'
    assume a: "find_task ?d1 k = Some t \<and> find_task (run acc P rs2 ?d1) k = Some t'"
    have "answers_nonneg (run acc P rs2 ?d1)" using nn assms(4) by (rule run_answers_nonneg)
    moreover from a have "t' \<in> set (tasks (run acc P rs2 ?d1))"
      by (auto simp: find_task_def dest: find_SomeD)
    ultimately show "0 \<le> answersLeft t'"
      by (simp add: answers_nonneg_def list_all_iff)
    from fr a show "answersLeft t' \<le> answersLeft t"
      by (auto intro: run_answersLeft_mono)
  }
  {
    fix k t F now usr and body :: respond_body
    assume "find_task ?d1 k = Some t \<and> answersLeft t = 0" "r_taskId body = k"
    then show "task_respond acc F now ?d1 usr body = (Next TaskCompleted, ?d1)"
      by (simp add: task_respond_exhausted)
  }
  {
    fix k t s
    assume a: "find_task ?d1 k = Some t \<and> answersLeft t = 0" and s: "s \<noteq> [] \<and> P s = Some [k]"
    from s have "task_fetch P ?d1 (Some s) = (Fetched (findAll_tasks ?d1 [k]), ?d1)"
      by (simp add: task_fetch_def requestedFetchTaskIds_def)
    moreover from a have "(t, responses_of ?d1 k) \<in> set (findAll_tasks ?d1 [k])"
      by (simp add: findAll_tasks_found)
    ultimately show "\<exists>rows. task_fetch P ?d1 (Some s) = (Fetched rows, ?d1)
                  \<and> (t, responses_of ?d1 k) \<in> set rows"
      by blast
  }
qed

lemmas run_defs = task_respond_def findOne_task_def find_task_def find_user_def
  respond_then_def apply_updates_def update_balance_def update_answersLeft_def
  persist_response_def createChangeLogPromise_def newest_first_def responses_of_def
  task_add_def new_task_def truthy_def num_value_def task_fetch_def task_sync_def
  task_delete_def destroy_task_def Let_def

theorem answersLeft_over_requests_witness:
  "ids_fresh ex_db \<and> answers_nonneg ex_db
   \<and> answers_nonneg (run (\<lambda>t rs. None) ex_parse [Respond {} 9 ex_alice ex_respond] ex_db)
   \<and> map answersLeft (tasks (run (\<lambda>t rs. None) ex_parse [Respond {} 9 ex_alice ex_respond] ex_db))
       = [0]
   \<and> map answersLeft (tasks (run (\<lambda>t rs. None) ex_parse
        [Respond {} 10 ex_bob ex_respond, Create {} 11 ex_body]
        (run (\<lambda>t rs. None) ex_parse [Respond {} 9 ex_alice ex_respond] ex_db)))
       = [0, 2]"
proof -
  have pre: "ids_fresh ex_db" "answers_nonneg ex_db"
    "list_all creates_nonneg [Respond {} 9 ex_alice ex_respond]"
    "list_all creates_nonneg [Respond {} 10 ex_bob ex_respond, Create {} 11 ex_body]"
    by (simp_all add: ids_fresh_def answers_nonneg_def ex_defs ex_body_def)
  from answersLeft_over_requests [OF pre, of "\<lambda>t rs. None" ex_parse]
  have "answers_nonneg (run (\<lambda>t rs. None) ex_parse [Respond {} 9 ex_alice ex_respond] ex_db)"
    by blast
  moreover have "map answersLeft
      (tasks (run (\<lambda>t rs. None) ex_parse [Respond {} 9 ex_alice ex_respond] ex_db)) = [0]"
    by (simp add: ex_defs ex_respond_def run_defs)
  moreover have "map answersLeft (tasks (run (\<lambda>t rs. None) ex_parse
        [Respond {} 10 ex_bob ex_respond, Create {} 11 ex_body]
        (run (\<lambda>t rs. None) ex_parse [Respond {} 9 ex_alice ex_respond] ex_db)))
       = [0, 2]"
    by (simp add: ex_defs ex_respond_def ex_body_def run_defs)
  ultimately show ?thesis using pre(1,2) by simp
qed

text \<open>The claim as written fails: nothing checks the sign of \<open>answersLeft\<close> when a task
  is created, and a response to a task created with \<open>-1\<close> is accepted and lowers the
  counter to \<open>-2\<close>.\<close>

theorem answersLeft_negative_counterexample:
  "map answersLeft (tasks (run (\<lambda>t rs. None) ex_parse
        [Create {} 9 (ex_body\<lparr>b_answersLeft := - 1\<rparr>)] ex_db)) = [1, - 1]
   \<and> fst (handle (\<lambda>t rs. None) ex_parse (Respond {} 10 ex_alice (ex_respond\<lparr>r_taskId := 8\<rparr>))
        (run (\<lambda>t rs. None) ex_parse [Create {} 9 (ex_body\<lparr>b_answersLeft := - 1\<rparr>)] ex_db))
       = Balance 5
   \<and> map answersLeft (tasks (run (\<lambda>t rs. None) ex_parse
        [Create {} 9 (ex_body\<lparr>b_answersLeft := - 1\<rparr>),
         Respond {} 10 ex_alice (ex_respond\<lparr>r_taskId := 8\<rparr>)] ex_db)) = [1, - 2]"
  by (simp add: ex_defs ex_respond_def ex_body_def run_defs js_examples)

subsection \<open>Synchronisation\<close>

text \<open>
  C5, as the code has it. \<open>task_sync\<close> never changes the store, so asking again with
  the same \<open>since\<close> gives the same reply. It returns the \<open>(taskId, status)\<close> pairs of
  exactly the change log entries created strictly after \<open>since\<close>, in the order the
  table holds them; \<open>lastUpdated\<close> is the creation time of the last entry returned, which
  is later than \<open>since\<close>, and it is \<open>0\<close>, not \<open>since\<close>, when no entry is returned.
  When the table is in ascending order of creation time, the entries returned are in
  ascending order too, \<open>lastUpdated\<close> of a reply with entries is the newest time in the
  table, and polling again with that value returns no change and \<open>lastUpdated = 0\<close>.
\<close>

theorem task_sync_entries_since:
  "\<exists>cl. task_sync d since = (Synced cl, d)
     \<and> changes cl = map (\<lambda>c. (cl_taskId c, cl_status c))
                       (filter (\<lambda>c. since < cl_createdAt c) (changelogs d))
     \<and> lastUpdated cl =
          (if filter (\<lambda>c. since < cl_createdAt c) (changelogs d) = [] then 0
           else cl_createdAt (last (filter (\<lambda>c. since < cl_createdAt c) (changelogs d))))
     \<and> (filter (\<lambda>c. since < cl_createdAt c) (changelogs d) \<noteq> [] \<longrightarrow> since < lastUpdated cl)
     \<and> task_sync (snd (task_sync d since)) since = task_sync d since
     \<and> (sorted (map cl_createdAt (changelogs d)) \<longrightarrow>
          sorted (map cl_createdAt (filter (\<lambda>c. since < cl_createdAt c) (changelogs d)))
          \<and> (filter (\<lambda>c. since < cl_createdAt c) (changelogs d) \<noteq> [] \<longrightarrow>
                lastUpdated cl = Max (cl_createdAt ` set (changelogs d))
                \<and> fst (task_sync d (lastUpdated cl)) = Synced \<lparr>lastUpdated = 0, changes = []\<rparr>))"
proof (cases "filter (\<lambda>c. since < cl_createdAt c) (changelogs d) = []")
  case True
  then show ?thesis by (simp add: task_sync_def)
next
  case False
  let ?newer = "filter (\<lambda>c. since < cl_createdAt c) (changelogs d)"
  let ?L = "cl_createdAt (last ?newer)"
  from False have "last ?newer \<in> set ?newer" by (rule last_in_set)
  then have gt: "since < ?L" by simp
  have srt: "sorted (map cl_createdAt (changelogs d)) \<longrightarrow> sorted (map cl_createdAt ?newer)"
    by (simp add: sorted_map_filter)
  have mx: "sorted (map cl_createdAt (changelogs d)) \<longrightarrow>
       ?L = Max (cl_createdAt ` set (changelogs d))
       \<and> fst (task_sync d ?L) = Synced \<lparr>lastUpdated = 0, changes = []\<rparr>"
  proof
    assume s: "sorted (map cl_createdAt (changelogs d))"
    from s False have l: "last ?newer = last (changelogs d)" and ne: "changelogs d \<noteq> []"
      by (rule newer_last)+
    from s ne have m: "cl_createdAt (last (changelogs d)) = Max (cl_createdAt ` set (changelogs d))"
      by (rule sorted_map_last_Max)
    have "\<forall>c\<in>set (changelogs d). cl_createdAt c \<le> ?L"
      using l m by simp
    then have "filter (\<lambda>c. ?L < cl_createdAt c) (changelogs d) = []"
      by (auto simp: filter_empty_conv)
    then have "fst (task_sync d ?L) = Synced \<lparr>lastUpdated = 0, changes = []\<rparr>"
      by (simp add: task_sync_def)
    with l m show "?L = Max (cl_createdAt ` set (changelogs d))
       \<and> fst (task_sync d ?L) = Synced \<lparr>lastUpdated = 0, changes = []\<rparr>"
      by simp
  qed
  have eq: "task_sync d since =
      (Synced \<lparr>lastUpdated = ?L, changes = map (\<lambda>c. (cl_taskId c, cl_status c)) ?newer\<rparr>, d)"
    using False by (simp add: task_sync_def Let_def)
  show ?thesis
  proof (intro exI conjI)
    show "task_sync d since =
      (Synced \<lparr>lastUpdated = ?L, changes = map (\<lambda>c. (cl_taskId c, cl_status c)) ?newer\<rparr>, d)"
      by (rule eq)
    show "changes \<lparr>lastUpdated = ?L, changes = map (\<lambda>c. (cl_taskId c, cl_status c)) ?newer\<rparr>
        = map (\<lambda>c. (cl_taskId c, cl_status c)) ?newer"
      by simp
    show "lastUpdated \<lparr>lastUpdated = ?L, changes = map (\<lambda>c. (cl_taskId c, cl_status c)) ?newer\<rparr>
        = (if ?newer = [] then 0 else ?L)"
      using False by simp
    show "?newer \<noteq> [] \<longrightarrow>
        since < lastUpdated \<lparr>lastUpdated = ?L, changes = map (\<lambda>c. (cl_taskId c, cl_status c)) ?newer\<rparr>"
      using gt by simp
    show "task_sync (snd (task_sync d since)) since = task_sync d since"
      by (simp add: eq)
    show "sorted (map cl_createdAt (changelogs d)) \<longrightarrow>
          sorted (map cl_createdAt ?newer)
          \<and> (?newer \<noteq> [] \<longrightarrow>
                lastUpdated \<lparr>lastUpdated = ?L, changes = map (\<lambda>c. (cl_taskId c, cl_status c)) ?newer\<rparr>
                  = Max (cl_createdAt ` set (changelogs d))
                \<and> fst (task_sync d (lastUpdated
                     \<lparr>lastUpdated = ?L, changes = map (\<lambda>c. (cl_taskId c, cl_status c)) ?newer\<rparr>))
                  = Synced \<lparr>lastUpdated = 0, changes = []\<rparr>)"
    proof (intro impI conjI)
      assume s: "sorted (map cl_createdAt (changelogs d))"
      with srt show "sorted (map cl_createdAt ?newer)" by blast
      from mx s have m1: "?L = Max (cl_createdAt ` set (changelogs d))"
        and m2: "fst (task_sync d ?L) = Synced \<lparr>lastUpdated = 0, changes = []\<rparr>"
        by blast+
      show "lastUpdated \<lparr>lastUpdated = ?L, changes = map (\<lambda>c. (cl_taskId c, cl_status c)) ?newer\<rparr>
                  = Max (cl_createdAt ` set (changelogs d))"
        using m1 by simp
      show "fst (task_sync d (lastUpdated
                     \<lparr>lastUpdated = ?L, changes = map (\<lambda>c. (cl_taskId c, cl_status c)) ?newer\<rparr>))
                  = Synced \<lparr>lastUpdated = 0, changes = []\<rparr>"
        using m2 by simp
    qed
  qed
qed

theorem task_sync_entries_since_witness:
  "sorted (map cl_createdAt (changelogs ex_db))
   \<and> task_sync ex_db 0 = (Synced \<lparr>lastUpdated = 5, changes = [(7, CREATED)]\<rparr>, ex_db)
   \<and> fst (task_sync ex_db 5) = Synced \<lparr>lastUpdated = 0, changes = []\<rparr>"
  using task_sync_entries_since [of ex_db 0]
  by (simp add: ex_db_def task_sync_def)

text \<open>The claim as written fails. Nothing in the example store is newer than \<open>5\<close>, and
  the reply to \<open>sync(5)\<close> carries \<open>lastUpdated = 0\<close>, not \<open>5\<close>; polling again with the
  value just received, \<open>sync(0)\<close>, delivers the old entry once more, although nothing has
  changed in between. And the entries are not sorted by the handler: after a deletion
  stamped \<open>3\<close> (the clock of the server has been set back), the table holds the times
  \<open>5, 3\<close>, \<open>sync(0)\<close> returns the two entries in that order, and \<open>lastUpdated\<close> is \<open>3\<close>,
  the time of the last entry and not the newest.\<close>

theorem task_sync_lastUpdated_counterexample:
  "filter (\<lambda>c. 5 < cl_createdAt c) (changelogs ex_db) = []
   \<and> fst (task_sync ex_db 5) = Synced \<lparr>lastUpdated = 0, changes = []\<rparr>
   \<and> fst (task_sync ex_db 5) \<noteq> Synced \<lparr>lastUpdated = 5, changes = []\<rparr>
   \<and> fst (task_sync ex_db 0) = Synced \<lparr>lastUpdated = 5, changes = [(7, CREATED)]\<rparr>
   \<and> snd (task_sync ex_db 5) = ex_db
   \<and> map cl_createdAt (changelogs (snd (task_delete {} 3 ex_db 7))) = [5, 3]
   \<and> fst (task_sync (snd (task_delete {} 3 ex_db 7)) 0)
       = Synced \<lparr>lastUpdated = 3, changes = [(7, CREATED), (7, DELETED)]\<rparr>"
  by (simp add: ex_db_def task_sync_def task_delete_def destroy_task_def createChangeLogPromise_def)

subsection \<open>Deleting a task that does not exist\<close>

text \<open>
  C7, as the code has it. For an id that no task has, \<open>task_delete\<close> redirects
  (success) and leaves the task table and every other table as they are, except the
  change log: a \<open>DELETED\<close> entry for the id is appended to it. (A store that rejects
  the \<open>destroy\<close> gives the error reply instead of the redirect; a store that rejects
  the insertion into the change log leaves no entry.)
\<close>

theorem task_delete_missing:
  "find_task d taskId = None \<Longrightarrow>
   task_delete F now d taskId =
     (if TaskDestroy \<in> F then Next (StorageError TaskDestroy) else Redirect,
      if ChangeLogCreate \<in> F then d
      else d\<lparr>changelogs := changelogs d @
             [\<lparr>cl_taskId = taskId, cl_status = DELETED, cl_createdAt = now\<rparr>]\<rparr>)"
proof -
  assume "find_task d taskId = None"
  then have "filter (\<lambda>t. tid t \<noteq> taskId) (tasks d) = tasks d"
    by (simp add: find_task_def find_None_filter)
  then have "destroy_task taskId d = d"
    by (simp add: destroy_task_def)
  then show ?thesis
    by (simp add: task_delete_def createChangeLogPromise_def)
qed

theorem task_delete_missing_witness:
  "find_task ex_db 4 = None
   \<and> task_delete {} 9 ex_db 4 =
       (Redirect, ex_db\<lparr>changelogs := changelogs ex_db @
          [\<lparr>cl_taskId = 4, cl_status = DELETED, cl_createdAt = 9\<rparr>]\<rparr>)"
  using task_delete_missing [where d = ex_db and taskId = 4 and F = "{}" and now = 9]
  by (simp add: ex_defs find_task_def)

text \<open>The claim as written fails: no task has id \<open>4\<close>, and deleting it still adds an
  entry to the change log.\<close>

theorem task_delete_missing_counterexample:
  "find_task ex_db 4 = None
   \<and> fst (task_delete {} 9 ex_db 4) = Redirect
   \<and> changelogs (snd (task_delete {} 9 ex_db 4)) =
       changelogs ex_db @ [\<lparr>cl_taskId = 4, cl_status = DELETED, cl_createdAt = 9\<rparr>]
   \<and> changelogs (snd (task_delete {} 9 ex_db 4)) \<noteq> changelogs ex_db"
  by (simp add: ex_defs find_task_def task_delete_def destroy_task_def createChangeLogPromise_def)

subsection \<open>The tables after the three updates\<close>

lemma apply_updates_users_table:
  "OwnerUpdate \<notin> F \<Longrightarrow> UserUpdate \<notin> F \<Longrightarrow>
   users (apply_updates F owner usr t d) =
     map (\<lambda>u. if uid u = uid usr then u\<lparr>balance := js_add (balance usr) (cost t)\<rparr>
              else if uid u = uid owner then u\<lparr>balance := js_sub (balance owner) (cost t)\<rparr>
              else u) (users d)"
  by (simp add: apply_updates_def update_answersLeft_def update_balance_def)

lemma apply_updates_tasks_table:
  "TaskUpdate \<notin> F \<Longrightarrow>
   tasks (apply_updates F owner usr t d) =
     map (\<lambda>x. if tid x = tid t then x\<lparr>answersLeft := answersLeft t - 1\<rparr> else x) (tasks d)"
  by (simp add: apply_updates_def update_answersLeft_def update_balance_def)

subsection \<open>The three updates and the persistence that follows them\<close>

text \<open>
  C2, as the code has it. The decrement and the two balance updates are not one unit with
  the response record. When the task is found with \<open>answersLeft \<noteq> 0\<close>,
  \<open>acceptingNewResponses\<close> accepts, the owner is found and the store accepts the three
  updates, then after the request, whatever fails later, the counter of the task is one
  less, the rows of the responder hold the balance of \<open>req.user\<close> plus the cost, the
  rows of the owner (if not the responder) the owner's balance minus the cost, and no
  other row of the two tables has changed; when the store rejects the TaskResponse, the
  client gets that error and no TaskResponse is stored, and the updates stay. When the
  request is refused before the updates (task missing, exhausted, not accepting, or owner
  missing), the store is unchanged.
\<close>

theorem task_respond_updates_stay:
  "(find_task d (r_taskId body) = Some t \<and> answersLeft t \<noteq> 0
      \<and> acc t (newest_first d (r_taskId body)) = None \<and> find_user d (userId t) = Some owner
      \<and> OwnerUpdate \<notin> F \<and> UserUpdate \<notin> F \<and> TaskUpdate \<notin> F
    \<longrightarrow> users (snd (task_respond acc F now d usr body)) =
          map (\<lambda>u. if uid u = uid usr then u\<lparr>balance := js_add (balance usr) (cost t)\<rparr>
                   else if uid u = uid owner then u\<lparr>balance := js_sub (balance owner) (cost t)\<rparr>
                   else u) (users d)
      \<and> tasks (snd (task_respond acc F now d usr body)) =
          map (\<lambda>x. if tid x = r_taskId body then x\<lparr>answersLeft := answersLeft t - 1\<rparr> else x)
            (tasks d)
      \<and> find_task (snd (task_respond acc F now d usr body)) (r_taskId body)
           = Some (t\<lparr>answersLeft := answersLeft t - 1\<rparr>)
      \<and> (TaskResponseCreate \<in> F \<longrightarrow>
           fst (task_respond acc F now d usr body) = Next (StorageError TaskResponseCreate)
           \<and> taskresponses (snd (task_respond acc F now d usr body)) = taskresponses d))
   \<and> (find_task d (r_taskId body) = None
       \<or> (find_task d (r_taskId body) = Some t
          \<and> (answersLeft t = 0 \<or> acc t (newest_first d (r_taskId body)) \<noteq> None
              \<or> find_user d (userId t) = None))
    \<longrightarrow> snd (task_respond acc F now d usr body) = d)"
proof (intro conjI impI)
  assume a: "find_task d (r_taskId body) = Some t \<and> answersLeft t \<noteq> 0
      \<and> acc t (newest_first d (r_taskId body)) = None \<and> find_user d (userId t) = Some owner
      \<and> OwnerUpdate \<notin> F \<and> UserUpdate \<notin> F \<and> TaskUpdate \<notin> F"
  then have eq: "task_respond acc F now d usr body =
     persist_response F now (usr\<lparr>balance := js_add (balance usr) (cost t)\<rparr>) body
       (apply_updates F owner usr t d)"
    by (simp add: task_respond_passed)
  from a have tk: "tid t = r_taskId body"
    by (auto simp: find_task_def dest: find_SomeD)
  show "users (snd (task_respond acc F now d usr body)) =
          map (\<lambda>u. if uid u = uid usr then u\<lparr>balance := js_add (balance usr) (cost t)\<rparr>
                   else if uid u = uid owner then u\<lparr>balance := js_sub (balance owner) (cost t)\<rparr>
                   else u) (users d)"
    using a by (simp add: eq persist_response_frame apply_updates_users_table)
  show ts: "tasks (snd (task_respond acc F now d usr body)) =
          map (\<lambda>x. if tid x = r_taskId body then x\<lparr>answersLeft := answersLeft t - 1\<rparr> else x)
            (tasks d)"
    using a tk by (simp add: eq persist_response_frame apply_updates_tasks_table)
  have "tasks (snd (task_respond acc F now d usr body)) = tasks (apply_updates F owner usr t d)"
    by (simp add: eq persist_response_frame)
  then show "find_task (snd (task_respond acc F now d usr body)) (r_taskId body)
             = Some (t\<lparr>answersLeft := answersLeft t - 1\<rparr>)"
    using a tk apply_updates_tables [of F owner usr t d "r_taskId body"]
    by (simp add: find_task_def)
  show "fst (task_respond acc F now d usr body) = Next (StorageError TaskResponseCreate)"
    if "TaskResponseCreate \<in> F"
    using that by (simp add: eq persist_response_rejected)
  show "taskresponses (snd (task_respond acc F now d usr body)) = taskresponses d"
    if "TaskResponseCreate \<in> F"
    using that persist_response_rejected [of F now _ body "apply_updates F owner usr t d"]
    by (simp add: eq apply_updates_frame)
next
  assume "find_task d (r_taskId body) = None
       \<or> (find_task d (r_taskId body) = Some t
          \<and> (answersLeft t = 0 \<or> acc t (newest_first d (r_taskId body)) \<noteq> None
              \<or> find_user d (userId t) = None))"
  then show "snd (task_respond acc F now d usr body) = d"
    by (rule task_respond_refused)
qed

theorem task_respond_updates_stay_witness:
  "find_task ex_db (r_taskId ex_respond) = Some ex_task \<and> answersLeft ex_task \<noteq> 0
   \<and> find_user ex_db (userId ex_task) = Some ex_owner
   \<and> fst (task_respond (\<lambda>t rs. None) {TaskResponseCreate} 9 ex_db ex_alice ex_respond)
       = Next (StorageError TaskResponseCreate)
   \<and> map balance (users ex_db) = [100, 0, 0]
   \<and> map balance
       (users (snd (task_respond (\<lambda>t rs. None) {TaskResponseCreate} 9 ex_db ex_alice ex_respond)))
       = [95, 5, 0]
   \<and> map answersLeft
       (tasks (snd (task_respond (\<lambda>t rs. None) {TaskResponseCreate} 9 ex_db ex_alice ex_respond)))
       = [0]
   \<and> find_task (snd (task_respond (\<lambda>t rs. None) {TaskResponseCreate} 9 ex_db ex_alice ex_respond))
        (r_taskId ex_respond) = Some (ex_task\<lparr>answersLeft := answersLeft ex_task - 1\<rparr>)
   \<and> taskresponses (snd (task_respond (\<lambda>t rs. None) {TaskResponseCreate} 9 ex_db ex_alice ex_respond))
       = []
   \<and> snd (task_respond (\<lambda>t rs. Some NotAccepting) {} 9 ex_db ex_alice ex_respond) = ex_db"
  using task_respond_updates_stay [where d = ex_db and body = ex_respond and t = ex_task
          and acc = "\<lambda>t rs. None" and owner = ex_owner and F = "{TaskResponseCreate}"
          and now = 9 and usr = ex_alice]
        task_respond_updates_stay [where d = ex_db and body = ex_respond and t = ex_task
          and acc = "\<lambda>t rs. Some NotAccepting" and owner = ex_owner and F = "{}"
          and now = 9 and usr = ex_alice]
  by (simp add: ex_defs ex_respond_def find_task_def find_user_def js_examples)

text \<open>The claim as written fails: the store rejects the TaskResponse, the client gets the
  error, and the task has lost its answer slot and the balances have moved.\<close>

theorem task_respond_not_rolled_back_counterexample:
  "fst (task_respond (\<lambda>t rs. None) {TaskResponseCreate} 9 ex_db ex_alice ex_respond)
     = Next (StorageError TaskResponseCreate)
   \<and> map answersLeft (tasks ex_db) = [1]
   \<and> map answersLeft
       (tasks (snd (task_respond (\<lambda>t rs. None) {TaskResponseCreate} 9 ex_db ex_alice ex_respond)))
     = [0]
   \<and> map balance (users ex_db) = [100, 0, 0]
   \<and> map balance
       (users (snd (task_respond (\<lambda>t rs. None) {TaskResponseCreate} 9 ex_db ex_alice ex_respond)))
     = [95, 5, 0]
   \<and> taskresponses (snd (task_respond (\<lambda>t rs. None) {TaskResponseCreate} 9 ex_db ex_alice ex_respond))
     = []"
  by (simp add: ex_defs ex_respond_def run_defs js_examples)

subsection \<open>The transfer\<close>

lemma sum_balance_update:
  "distinct (map uid us) \<Longrightarrow> find (\<lambda>u. uid u = k) us = Some u \<Longrightarrow>
   sum_list (map balance (map (\<lambda>x. if uid x = k then x\<lparr>balance := b\<rparr> else x) us))
     = sum_list (map balance us) - balance u + b"
proof (induction us)
  case Nil
  then show ?case by simp
next
  case (Cons a us)
  show ?case
  proof (cases "uid a = k")
    case True
    with Cons.prems have "a = u" by simp
    from Cons.prems(1) have "uid a \<notin> uid ` set us" by simp
    with True have "\<forall>x\<in>set us. uid x \<noteq> k" by blast
    then have "map (\<lambda>x. if uid x = k then x\<lparr>balance := b\<rparr> else x) us = us"
      by (simp add: map_idI)
    with True \<open>a = u\<close> show ?thesis by simp
  next
    case False
    with Cons show ?thesis by simp
  qed
qed

lemma update_balance_frame:
  "tasks (update_balance F op k b d) = tasks d"
  "map uid (users (update_balance F op k b d)) = map uid (users d)"
  by (simp_all add: update_balance_def comp_def)

lemma update_answersLeft_frame:
  "users (update_answersLeft F k n d) = users d"
  by (simp add: update_answersLeft_def)

lemma sum_update_balance:
  assumes "distinct (map uid (users d))" "find_user d k = Some u" "op \<notin> F"
  shows "sum_list (map balance (users (update_balance F op k b d)))
     = sum_list (map balance (users d)) - balance u + b"
  using assms sum_balance_update [of "users d" k u b]
  by (simp add: update_balance_def find_user_def)

lemma apply_updates_users:
  assumes "find_user d (uid owner) = Some owner" "find_user d (uid usr) = Some usr"
    "uid usr \<noteq> uid owner" "OwnerUpdate \<notin> F" "UserUpdate \<notin> F"
  shows "find_user (apply_updates F owner usr t d) k =
      (if k = uid owner then Some (owner\<lparr>balance := js_sub (balance owner) (cost t)\<rparr>)
       else if k = uid usr then Some (usr\<lparr>balance := js_add (balance usr) (cost t)\<rparr>)
       else find_user d k)"
    and "distinct (map uid (users d)) \<Longrightarrow>
       sum_list (map balance (users (apply_updates F owner usr t d)))
       = sum_list (map balance (users d))
           - balance owner + js_sub (balance owner) (cost t)
           - balance usr + js_add (balance usr) (cost t)"
proof -
  let ?d1 = "update_balance F OwnerUpdate (uid owner) (js_sub (balance owner) (cost t)) d"
  let ?d2 = "update_balance F UserUpdate (uid usr) (js_add (balance usr) (cost t)) ?d1"
  have u: "users (apply_updates F owner usr t d) = users ?d2"
    by (simp add: apply_updates_def update_answersLeft_frame)
  have f1: "find_user ?d1 j =
      (if j = uid owner then Some (owner\<lparr>balance := js_sub (balance owner) (cost t)\<rparr>)
       else find_user d j)" for j
    using assms(1,4) by (simp add: find_user_update_balance)
  have f2: "find_user ?d2 j =
      (if j = uid usr then Some (usr\<lparr>balance := js_add (balance usr) (cost t)\<rparr>)
       else find_user ?d1 j)" for j
    using assms(2,3,5) by (simp add: find_user_update_balance f1)
  show "find_user (apply_updates F owner usr t d) k =
      (if k = uid owner then Some (owner\<lparr>balance := js_sub (balance owner) (cost t)\<rparr>)
       else if k = uid usr then Some (usr\<lparr>balance := js_add (balance usr) (cost t)\<rparr>)
       else find_user d k)"
    using assms(3) u f1 f2 by (simp add: find_user_def)
  assume dist: "distinct (map uid (users d))"
  have s1: "sum_list (map balance (users ?d1))
       = sum_list (map balance (users d)) - balance owner + js_sub (balance owner) (cost t)"
    using sum_update_balance [OF dist assms(1) assms(4)] by simp
  have d1: "distinct (map uid (users ?d1))"
    using dist by (simp add: update_balance_frame)
  have "find_user ?d1 (uid usr) = Some usr"
    using assms(2,3) by (simp add: f1)
  from sum_update_balance [OF d1 this assms(5), of "js_add (balance usr) (cost t)"] s1
  show "sum_list (map balance (users (apply_updates F owner usr t d)))
       = sum_list (map balance (users d))
           - balance owner + js_sub (balance owner) (cost t)
           - balance usr + js_add (balance usr) (cost t)"
    by (simp add: u)
qed

text \<open>
  C4, as the code has it. Take a request that reaches the updates: the task is found with
  \<open>answersLeft \<noteq> 0\<close>, \<open>acceptingNewResponses\<close> accepts and the owner is found (every
  successful request is one, and its reply carries the responder's new balance). Let
  \<open>req.user\<close> be the stored row of the responder (nothing has written it since the
  middleware read it), the responder not be the owner, and the store accept both balance
  updates. Then afterwards the owner's balance is the double nearest to its old balance
  minus the cost, the responder's the double nearest to its old balance plus the cost,
  and no other user's balance has changed. When neither result is rounded (and user ids
  are unique), the owner's balance is lower by exactly the cost, the responder's higher
  by exactly the cost, and the sum of all balances is what it was. These updates are not
  atomic with the TaskResponse: when the store rejects the TaskResponse, the client gets
  that error, no TaskResponse is stored, and the balances have moved all the same.
\<close>

theorem task_respond_transfer:
  "(find_task d (r_taskId body) = Some t \<and> answersLeft t \<noteq> 0
      \<and> acc t (newest_first d (r_taskId body)) = None \<and> find_user d (userId t) = Some owner
      \<and> find_user d (uid usr) = Some usr \<and> uid usr \<noteq> uid owner
      \<and> OwnerUpdate \<notin> F \<and> UserUpdate \<notin> F
    \<longrightarrow> find_user (snd (task_respond acc F now d usr body)) (uid owner)
            = Some (owner\<lparr>balance := js_sub (balance owner) (cost t)\<rparr>)
      \<and> find_user (snd (task_respond acc F now d usr body)) (uid usr)
            = Some (usr\<lparr>balance := js_add (balance usr) (cost t)\<rparr>)
      \<and> (\<forall>k. k \<noteq> uid owner \<and> k \<noteq> uid usr \<longrightarrow>
            find_user (snd (task_respond acc F now d usr body)) k = find_user d k)
      \<and> (js_sub (balance owner) (cost t) = balance owner - cost t
          \<and> js_add (balance usr) (cost t) = balance usr + cost t
          \<and> distinct (map uid (users d))
        \<longrightarrow> map_option balance (find_user (snd (task_respond acc F now d usr body)) (uid owner))
              = Some (balance owner - cost t)
          \<and> map_option balance (find_user (snd (task_respond acc F now d usr body)) (uid usr))
              = Some (balance usr + cost t)
          \<and> sum_list (map balance (users (snd (task_respond acc F now d usr body))))
              = sum_list (map balance (users d)))
      \<and> (TaskResponseCreate \<in> F \<longrightarrow>
            fst (task_respond acc F now d usr body) = Next (StorageError TaskResponseCreate)
            \<and> taskresponses (snd (task_respond acc F now d usr body)) = taskresponses d))
   \<and> (\<forall>b. fst (task_respond acc F now d usr body) = Balance b \<longrightarrow>
         (\<exists>t' owner'. find_task d (r_taskId body) = Some t' \<and> answersLeft t' \<noteq> 0
            \<and> acc t' (newest_first d (r_taskId body)) = None
            \<and> find_user d (userId t') = Some owner'
            \<and> b = js_add (balance usr) (cost t')))"
proof (intro conjI impI allI)
  fix b
  assume "fst (task_respond acc F now d usr body) = Balance b"
  then show "\<exists>t' owner'. find_task d (r_taskId body) = Some t' \<and> answersLeft t' \<noteq> 0
            \<and> acc t' (newest_first d (r_taskId body)) = None
            \<and> find_user d (userId t') = Some owner'
            \<and> b = js_add (balance usr) (cost t')"
    by (rule task_respond_BalanceD)
next
  let ?R = "task_respond acc F now d usr body"
  assume a: "find_task d (r_taskId body) = Some t \<and> answersLeft t \<noteq> 0
      \<and> acc t (newest_first d (r_taskId body)) = None \<and> find_user d (userId t) = Some owner
      \<and> find_user d (uid usr) = Some usr \<and> uid usr \<noteq> uid owner
      \<and> OwnerUpdate \<notin> F \<and> UserUpdate \<notin> F"
  then have eq: "?R = persist_response F now (usr\<lparr>balance := js_add (balance usr) (cost t)\<rparr>) body
       (apply_updates F owner usr t d)"
    by (simp add: task_respond_passed)
  from a have ow: "uid owner = userId t"
    by (auto simp: find_user_def dest: find_SomeD)
  with a have o: "find_user d (uid owner) = Some owner" by simp
  from a have u: "find_user d (uid usr) = Some usr" and ne: "uid usr \<noteq> uid owner"
    and fo: "OwnerUpdate \<notin> F" and fu: "UserUpdate \<notin> F"
    by simp_all
  note au = apply_updates_users [OF o u ne fo fu]
  have us: "users (snd ?R) = users (apply_updates F owner usr t d)"
    by (simp add: eq persist_response_frame)
  then have f: "find_user (snd ?R) k = find_user (apply_updates F owner usr t d) k" for k
    by (simp add: find_user_def)
  show fo': "find_user (snd ?R) (uid owner) = Some (owner\<lparr>balance := js_sub (balance owner) (cost t)\<rparr>)"
    by (simp add: f au(1))
  show fu': "find_user (snd ?R) (uid usr) = Some (usr\<lparr>balance := js_add (balance usr) (cost t)\<rparr>)"
    using ne by (simp add: f au(1))
  show "find_user (snd ?R) k = find_user d k" if "k \<noteq> uid owner \<and> k \<noteq> uid usr" for k
    using that by (simp add: f au(1))
  {
    assume ex: "js_sub (balance owner) (cost t) = balance owner - cost t
          \<and> js_add (balance usr) (cost t) = balance usr + cost t
          \<and> distinct (map uid (users d))"
    show "map_option balance (find_user (snd ?R) (uid owner)) = Some (balance owner - cost t)"
      using ex by (simp add: fo')
    show "map_option balance (find_user (snd ?R) (uid usr)) = Some (balance usr + cost t)"
      using ex by (simp add: fu')
    from ex have "distinct (map uid (users d))" by simp
    from au(2) [OF this, of t] ex
    show "sum_list (map balance (users (snd ?R))) = sum_list (map balance (users d))"
      by (simp add: us)
  }
  {
    assume r: "TaskResponseCreate \<in> F"
    then show "fst ?R = Next (StorageError TaskResponseCreate)"
      by (simp add: eq persist_response_rejected)
    from r persist_response_rejected [of F now _ body "apply_updates F owner usr t d"]
    show "taskresponses (snd ?R) = taskresponses d"
      by (simp add: eq apply_updates_frame)
  }
qed


theorem task_respond_transfer_witness:
  "find_task ex_db (r_taskId ex_respond) = Some ex_task
   \<and> find_user ex_db (userId ex_task) = Some ex_owner
   \<and> find_user ex_db (uid ex_alice) = Some ex_alice
   \<and> js_sub (balance ex_owner) (cost ex_task) = balance ex_owner - cost ex_task
   \<and> js_add (balance ex_alice) (cost ex_task) = balance ex_alice + cost ex_task
   \<and> fst (task_respond (\<lambda>t rs. None) {} 9 ex_db ex_alice ex_respond) = Balance 5
   \<and> find_user (snd (task_respond (\<lambda>t rs. None) {} 9 ex_db ex_alice ex_respond)) 1
       = Some (ex_owner\<lparr>balance := 95\<rparr>)
   \<and> find_user (snd (task_respond (\<lambda>t rs. None) {} 9 ex_db ex_alice ex_respond)) 2
       = Some (ex_alice\<lparr>balance := 5\<rparr>)
   \<and> find_user (snd (task_respond (\<lambda>t rs. None) {} 9 ex_db ex_alice ex_respond)) 3
       = Some ex_bob
   \<and> sum_list (map balance
        (users (snd (task_respond (\<lambda>t rs. None) {} 9 ex_db ex_alice ex_respond)))) = 100"
  using task_respond_transfer [where d = ex_db and body = ex_respond and t = ex_task
          and acc = "\<lambda>t rs. None" and owner = ex_owner and F = "{}"
          and now = 9 and usr = ex_alice]
  by (simp add: ex_defs ex_respond_def run_defs js_examples)

text \<open>The claim as written fails in four ways. The owner answers the own task: the
  request succeeds and the owner's balance, far from decreasing, is higher by the cost.
  The store rejects Bob's TaskResponse: the balances have moved, with no TaskResponse.
  Alice and Bob answer a task with five slots at the same time: both succeed, both are
  paid, and the owner is charged once. And Alice, who holds \<open>2 ^ 53\<close>, answers: the sum
  with the cost \<open>5\<close> is no double, and her balance is higher by \<open>4\<close>.\<close>

theorem task_respond_transfer_counterexample:
  "fst (task_respond (\<lambda>t rs. None) {} 9 ex_db ex_owner ex_respond) = Balance 105
   \<and> map balance (users ex_db) = [100, 0, 0]
   \<and> map balance (users (snd (task_respond (\<lambda>t rs. None) {} 9 ex_db ex_owner ex_respond)))
       = [105, 0, 0]
   \<and> fst (task_respond (\<lambda>t rs. None) {TaskResponseCreate} 9 ex_db ex_bob ex_respond)
       = Next (StorageError TaskResponseCreate)
   \<and> map balance
       (users (snd (task_respond (\<lambda>t rs. None) {TaskResponseCreate} 9 ex_db ex_bob ex_respond)))
       = [95, 0, 5]
   \<and> taskresponses (snd (task_respond (\<lambda>t rs. None) {TaskResponseCreate} 9 ex_db ex_bob ex_respond))
       = []
   \<and> fst (task_respond_overlapped (\<lambda>t rs. None) 9
        (ex_db\<lparr>tasks := [ex_task\<lparr>answersLeft := 5\<rparr>]\<rparr>) ex_alice ex_respond ex_bob ex_respond)
       = Balance 5
   \<and> fst (snd (task_respond_overlapped (\<lambda>t rs. None) 9
        (ex_db\<lparr>tasks := [ex_task\<lparr>answersLeft := 5\<rparr>]\<rparr>) ex_alice ex_respond ex_bob ex_respond))
       = Balance 5
   \<and> map balance (users (snd (snd (task_respond_overlapped (\<lambda>t rs. None) 9
        (ex_db\<lparr>tasks := [ex_task\<lparr>answersLeft := 5\<rparr>]\<rparr>) ex_alice ex_respond ex_bob ex_respond))))
       = [95, 5, 5]
   \<and> fst (task_respond (\<lambda>t rs. None) {} 9
        (ex_db\<lparr>users := [ex_owner, ex_alice\<lparr>balance := 9007199254740992\<rparr>, ex_bob]\<rparr>)
        (ex_alice\<lparr>balance := 9007199254740992\<rparr>) ex_respond)
       = Balance 9007199254740996
   \<and> map balance (users (snd (task_respond (\<lambda>t rs. None) {} 9
        (ex_db\<lparr>users := [ex_owner, ex_alice\<lparr>balance := 9007199254740992\<rparr>, ex_bob]\<rparr>)
        (ex_alice\<lparr>balance := 9007199254740992\<rparr>) ex_respond)))
       = [95, 9007199254740996, 0]"
  by (simp add: ex_defs ex_respond_def run_defs task_respond_overlapped_def js_examples)

subsection \<open>Two responses to the last slot\<close>

text \<open>
  C1, as the code has it. Take a task with \<open>answersLeft = 1\<close> whose owner's row is
  stored, and two requests for it that run one after the other: \<open>req.user\<close> of the first
  is the stored row of its responder, and the second \<open>findOne\<close> reads what the first
  request wrote. Let the first responder not be the owner, \<open>acceptingNewResponses\<close>
  accept the first request and the store accept its writes. Then the first succeeds with
  the responder's new balance, the second is refused with "Task is already completed."
  and changes nothing, the counter ends at \<open>0\<close>, exactly one TaskResponse is added, and
  one transfer is made: the owner's balance is its old balance minus the cost, the first
  responder's its old balance plus the cost (as doubles), and no other row of the user
  table has changed.
\<close>

theorem task_respond_one_after_the_other:
  assumes "find_task d k = Some t" "answersLeft t = 1" "acc t (newest_first d k) = None"
    and "find_user d (userId t) = Some owner"
    and "find_user d (uid usrA) = Some usrA" "uid usrA \<noteq> uid owner"
    and "r_taskId bodyA = k" "r_taskId bodyB = k"
  shows "\<exists>d1. task_respond acc {} nowA d usrA bodyA
                = (Balance (js_add (balance usrA) (cost t)), d1)
     \<and> task_respond acc F nowB d1 usrB bodyB = (Next TaskCompleted, d1)
     \<and> find_task d1 k = Some (t\<lparr>answersLeft := 0\<rparr>)
     \<and> taskresponses d1 = taskresponses d @
          [\<lparr>tr_id = taskresponse_seq d, tr_userId = uid usrA, tr_taskId = k, tr_createdAt = nowA\<rparr>]
     \<and> users d1 =
          map (\<lambda>u. if uid u = uid usrA then u\<lparr>balance := js_add (balance usrA) (cost t)\<rparr>
                   else if uid u = uid owner then u\<lparr>balance := js_sub (balance owner) (cost t)\<rparr>
                   else u) (users d)
     \<and> find_user d1 (uid owner) = Some (owner\<lparr>balance := js_sub (balance owner) (cost t)\<rparr>)
     \<and> find_user d1 (uid usrA) = Some (usrA\<lparr>balance := js_add (balance usrA) (cost t)\<rparr>)
     \<and> (\<forall>j. j \<noteq> uid owner \<and> j \<noteq> uid usrA \<longrightarrow> find_user d1 j = find_user d j)"
proof -
  let ?usr = "usrA\<lparr>balance := js_add (balance usrA) (cost t)\<rparr>"
  let ?R = "task_respond acc {} nowA d usrA bodyA"
  have eq: "?R = persist_response {} nowA ?usr bodyA (apply_updates {} owner usrA t d)"
    using assms by (simp add: task_respond_passed)
  have r: "fst ?R = Balance (js_add (balance usrA) (cost t))"
    by (simp add: eq persist_response_ok)
  have tk: "tid t = k"
    using assms(1) by (auto simp: find_task_def dest: find_SomeD)
  have "tasks (snd ?R) = tasks (apply_updates {} owner usrA t d)"
    by (simp add: eq persist_response_frame)
  then have "find_task (snd ?R) k = find_task (apply_updates {} owner usrA t d) k"
    by (simp add: find_task_def)
  then have ft: "find_task (snd ?R) k = Some (t\<lparr>answersLeft := 0\<rparr>)"
    using assms(1,2) tk by (simp add: apply_updates_tables)
  have second: "task_respond acc F nowB (snd ?R) usrB bodyB = (Next TaskCompleted, snd ?R)"
    using ft assms(8) by (simp add: task_respond_exhausted)
  have rs: "taskresponses (snd ?R) = taskresponses d @
          [\<lparr>tr_id = taskresponse_seq d, tr_userId = uid usrA, tr_taskId = k, tr_createdAt = nowA\<rparr>]"
    using assms(7) by (simp add: eq persist_response_appends apply_updates_frame)
  have us: "users (snd ?R) = users (apply_updates {} owner usrA t d)"
    by (simp add: eq persist_response_frame)
  then have f: "find_user (snd ?R) j = find_user (apply_updates {} owner usrA t d) j" for j
    by (simp add: find_user_def)
  have tab: "users (snd ?R) =
          map (\<lambda>u. if uid u = uid usrA then u\<lparr>balance := js_add (balance usrA) (cost t)\<rparr>
                   else if uid u = uid owner then u\<lparr>balance := js_sub (balance owner) (cost t)\<rparr>
                   else u) (users d)"
    by (simp add: us apply_updates_users_table)
  from assms(4) have "uid owner = userId t"
    by (auto simp: find_user_def dest: find_SomeD)
  with assms(4) have o: "find_user d (uid owner) = Some owner" by simp
  have e: "OwnerUpdate \<notin> {}" "UserUpdate \<notin> {}" by simp_all
  note au = apply_updates_users(1) [OF o assms(5) assms(6) e]
  have fo: "find_user (snd ?R) (uid owner) = Some (owner\<lparr>balance := js_sub (balance owner) (cost t)\<rparr>)"
    by (simp add: f au)
  have fu: "find_user (snd ?R) (uid usrA) = Some ?usr"
    using assms(6) by (simp add: f au)
  have other: "\<forall>j. j \<noteq> uid owner \<and> j \<noteq> uid usrA \<longrightarrow> find_user (snd ?R) j = find_user d j"
    by (simp add: f au)
  from r have "?R = (Balance (js_add (balance usrA) (cost t)), snd ?R)"
    by (metis prod.collapse)
  with second ft rs tab fo fu other show ?thesis
    by (intro exI [of _ "snd ?R"] conjI)
qed

theorem task_respond_one_after_the_other_witness:
  "find_task ex_db 7 = Some ex_task \<and> answersLeft ex_task = 1
   \<and> find_user ex_db (userId ex_task) = Some ex_owner
   \<and> find_user ex_db (uid ex_alice) = Some ex_alice
   \<and> (\<exists>d1. task_respond (\<lambda>t rs. None) {} 9 ex_db ex_alice ex_respond = (Balance 5, d1)
        \<and> task_respond (\<lambda>t rs. None) {} 10 d1 ex_bob ex_respond = (Next TaskCompleted, d1)
        \<and> map answersLeft (tasks d1) = [0]
        \<and> map tr_userId (taskresponses d1) = [2]
        \<and> map balance (users d1) = [95, 5, 0])"
proof -
  have pre: "find_task ex_db 7 = Some ex_task" "answersLeft ex_task = 1"
    "(\<lambda>t rs. None) ex_task (newest_first ex_db 7) = None"
    "find_user ex_db (userId ex_task) = Some ex_owner"
    "find_user ex_db (uid ex_alice) = Some ex_alice" "uid ex_alice \<noteq> uid ex_owner"
    "r_taskId ex_respond = 7" "r_taskId ex_respond = 7"
    by (simp_all add: ex_defs ex_respond_def find_task_def find_user_def)
  from task_respond_one_after_the_other [OF pre, where F = "{}" and nowB = 10 and usrB = ex_bob
         and nowA = 9]
  obtain d1 where d1:
    "task_respond (\<lambda>t rs. None) {} 9 ex_db ex_alice ex_respond
                = (Balance (js_add (balance ex_alice) (cost ex_task)), d1)"
    "task_respond (\<lambda>t rs. None) {} 10 d1 ex_bob ex_respond = (Next TaskCompleted, d1)"
    "find_task d1 7 = Some (ex_task\<lparr>answersLeft := 0\<rparr>)"
    "taskresponses d1 = taskresponses ex_db @
          [\<lparr>tr_id = taskresponse_seq ex_db, tr_userId = uid ex_alice, tr_taskId = 7, tr_createdAt = 9\<rparr>]"
    "users d1 =
          map (\<lambda>u. if uid u = uid ex_alice
                     then u\<lparr>balance := js_add (balance ex_alice) (cost ex_task)\<rparr>
                   else if uid u = uid ex_owner
                     then u\<lparr>balance := js_sub (balance ex_owner) (cost ex_task)\<rparr>
                   else u) (users ex_db)"
    by blast
  from d1(1) have "d1 = snd (task_respond (\<lambda>t rs. None) {} 9 ex_db ex_alice ex_respond)"
    by simp
  then have tk: "map answersLeft (tasks d1) = [0]"
    by (simp add: ex_defs ex_respond_def run_defs)
  have first: "task_respond (\<lambda>t rs. None) {} 9 ex_db ex_alice ex_respond = (Balance 5, d1)"
    using d1(1) by (simp add: ex_defs js_examples)
  have rs: "map tr_userId (taskresponses d1) = [2]"
    using d1(4) by (simp add: ex_defs)
  have us: "map balance (users d1) = [95, 5, 0]"
    using d1(5) by (simp add: ex_defs js_examples)
  have "\<exists>d1. task_respond (\<lambda>t rs. None) {} 9 ex_db ex_alice ex_respond = (Balance 5, d1)
        \<and> task_respond (\<lambda>t rs. None) {} 10 d1 ex_bob ex_respond = (Next TaskCompleted, d1)
        \<and> map answersLeft (tasks d1) = [0]
        \<and> map tr_userId (taskresponses d1) = [2]
        \<and> map balance (users d1) = [95, 5, 0]"
    by (rule exI [of _ d1]) (simp only: first d1(2) tk rs us simp_thms)
  with pre(1,2,4,5) show ?thesis by simp
qed

text \<open>The claim as written fails: when the two requests overlap, both succeed on the one
  remaining slot; two TaskResponses are stored, both responders are paid, and the owner
  is charged once. And when the first of two requests in a row is the owner's own, it
  succeeds and no transfer is made: the owner's balance ends higher by the cost.\<close>

theorem task_respond_overlapped_counterexample:
  "map answersLeft (tasks ex_db) = [1]
   \<and> fst (task_respond_overlapped (\<lambda>t rs. None) 9 ex_db ex_alice ex_respond ex_bob ex_respond)
       = Balance 5
   \<and> fst (snd (task_respond_overlapped (\<lambda>t rs. None) 9 ex_db ex_alice ex_respond ex_bob ex_respond))
       = Balance 5
   \<and> map tr_userId (taskresponses (snd (snd
        (task_respond_overlapped (\<lambda>t rs. None) 9 ex_db ex_alice ex_respond ex_bob ex_respond))))
       = [2, 3]
   \<and> map balance (users (snd (snd
        (task_respond_overlapped (\<lambda>t rs. None) 9 ex_db ex_alice ex_respond ex_bob ex_respond))))
       = [95, 5, 5]
   \<and> map answersLeft (tasks (snd (snd
        (task_respond_overlapped (\<lambda>t rs. None) 9 ex_db ex_alice ex_respond ex_bob ex_respond))))
       = [0]
   \<and> map balance (users (run (\<lambda>t rs. None) ex_parse
        [Respond {} 9 ex_owner ex_respond, Respond {} 10 ex_bob ex_respond] ex_db))
       = [105, 0, 0]"
  by (simp add: ex_defs ex_respond_def task_respond_overlapped_def run_defs js_examples)

end
